theory Spec2Isabelle
  imports Complex_Main "HOL-Library.AList"
begin

section \<open>Shared data model\<close>

text \<open>
  The repository holds two Flask applications, \<^verbatim>\<open>gemini_version/app.py\<close> (Firestore,
  Firebase Storage, Vertex AI) and \<^verbatim>\<open>groq_version/app.py\<close> (PostgreSQL with a vector
  column, a local sentence encoder, the Groq chat API). Each request handler is embedded as
  a function from the store before the request to a reply and the store after it. The
  libraries and remote services are parameters (records of functions); every call that can
  raise returns \<open>error + 'a\<close>, and every \<^verbatim>\<open>try/except\<close> of the source is a case
  distinction on that sum.

  Python strings are modelled as \<open>string\<close> (one \<open>char\<close> per code point below 256),
  embedding vectors as lists of reals, and \<^verbatim>\<open>time.sleep\<close> and \<^verbatim>\<open>print\<close> are dropped.
\<close>

datatype error =
    RuntimeError string
  | TypeError string
  | KeyError string
  | JSONDecodeError string
  | ExternalError string

text \<open>\<^verbatim>\<open>str(e)\<close>: the message of an exception; a \<^verbatim>\<open>KeyError\<close> prints the repr of its key.\<close>

fun str :: "error \<Rightarrow> string" where
  "str (RuntimeError m) = m"
| "str (TypeError m) = m"
| "str (KeyError k) = [CHR 0x27] @ k @ [CHR 0x27]"
| "str (JSONDecodeError m) = m"
| "str (ExternalError m) = m"

datatype json =
    JNull
  | JBool bool
  | JNumber int
  | JString string
  | JArray "json list"
  | JObject "(string \<times> json) list"

type_synonym bytes = string
type_synonym vector = "real list"

text \<open>A page of a parsed PDF is what its \<^verbatim>\<open>extract_text()\<close> does: a string, or an exception.\<close>

type_synonym page = "error + string"

text \<open>
  A reply of a handler: \<^verbatim>\<open>jsonify(body), code\<close> (code 200 where the source gives none),
  or \<^verbatim>\<open>render_template(name, flashcards=value)\<close>.
\<close>

datatype response =
    Jsonify "(string \<times> string) list" nat
  | Render_template string json

text \<open>
  A handler returns \<open>Inr reply\<close>, or \<open>Inl e\<close> when the exception \<open>e\<close> leaves the
  view function uncaught.
\<close>

type_synonym reply = "error + response"

record file_storage =
  filename :: string
  stream :: bytes

record upload_request =
  files :: "string \<rightharpoonup> file_storage"

text \<open>The JSON body of \<^verbatim>\<open>/ask_question\<close>: the value under the key \<^verbatim>\<open>question\<close>, if any.\<close>

record ask_request =
  question :: "string option"

text \<open>The libraries both applications import, and the outcome of \<^verbatim>\<open>uuid.uuid4()\<close>.\<close>

record external =
  uuid4 :: string
  PdfReader :: "bytes \<Rightarrow> error + page list"
  split_text :: "nat \<Rightarrow> nat \<Rightarrow> string \<Rightarrow> string list"
  markdown :: "string \<Rightarrow> string"
  json_loads :: "string \<Rightarrow> error + json"
  distance :: "vector \<Rightarrow> vector \<Rightarrow> real"

subsection \<open>String operations of the Python standard library\<close>

definition nl :: string where
  "nl = [CHR 0x0A]"

definition endswith :: "string \<Rightarrow> string \<Rightarrow> bool" where
  "endswith s suf \<longleftrightarrow> length suf \<le> length s \<and> drop (length s - length suf) s = suf"

definition isspace :: "char \<Rightarrow> bool" where
  "isspace c \<longleftrightarrow> c \<in> set [CHR 0x09, CHR 0x0A, CHR 0x0B, CHR 0x0C, CHR 0x0D,
     CHR 0x1C, CHR 0x1D, CHR 0x1E, CHR 0x1F, CHR 0x20, CHR 0x85, CHR 0xA0]"

definition strip :: "string \<Rightarrow> string" where
  "strip s = rev (dropWhile isspace (rev (dropWhile isspace s)))"

text \<open>\<^verbatim>\<open>s.replace(old, "")\<close>: every occurrence of \<open>old\<close>, left to right, is removed.\<close>

function remove_all :: "string \<Rightarrow> string \<Rightarrow> string" where
  "remove_all old [] = []"
| "remove_all old (c # cs) =
     (if old \<noteq> [] \<and> take (length old) (c # cs) = old
      then remove_all old (drop (length old) (c # cs))
      else c # remove_all old cs)"
  by pat_completeness auto
termination
  by (relation "measure (\<lambda>(old, s). length s)") (auto simp: neq_Nil_conv)

text \<open>\<^verbatim>\<open>sep.join(xs)\<close>.\<close>

fun join :: "string \<Rightarrow> string list \<Rightarrow> string" where
  "join sep [] = []"
| "join sep [x] = x"
| "join sep (x # y # ys) = x @ sep @ join sep (y # ys)"

text \<open>\<^verbatim>\<open>k in s\<close> on two strings: \<open>k\<close> occurs in \<open>s\<close> as a substring.\<close>

fun contains :: "string \<Rightarrow> string \<Rightarrow> bool" where
  "contains [] k \<longleftrightarrow> k = []"
| "contains (c # cs) k \<longleftrightarrow> take (length k) (c # cs) = k \<or> contains cs k"

text \<open>
  \<^verbatim>\<open>re.search(r"\[.*\]", s, re.DOTALL)\<close> followed by \<^verbatim>\<open>match.group()\<close>. The search is
  leftmost and \<^verbatim>\<open>.*\<close> is greedy and, under \<^verbatim>\<open>DOTALL\<close>, matches every character: the
  match starts at the first \<^verbatim>\<open>[\<close> and ends at the last \<^verbatim>\<open>]\<close> behind it. When no
  \<^verbatim>\<open>]\<close> follows the first \<^verbatim>\<open>[\<close>, none follows a later one either, and the search
  returns \<^verbatim>\<open>None\<close>.
\<close>

definition re_search_bracket :: "string \<Rightarrow> string option" where
  "re_search_bracket s =
     (case dropWhile (\<lambda>c. c \<noteq> CHR ''['') s of
        [] \<Rightarrow> None
      | b # rest \<Rightarrow>
          if CHR '']'' \<in> set rest
          then Some (b # rev (dropWhile (\<lambda>c. c \<noteq> CHR '']'') (rev rest)))
          else None)"

subsection \<open>Operations on parsed JSON values\<close>

text \<open>\<^verbatim>\<open>for card in data\<close>: a list yields its elements, a dict its keys, a string its characters.\<close>

fun py_iter :: "json \<Rightarrow> error + json list" where
  "py_iter (JArray xs) = Inr xs"
| "py_iter (JObject kvs) = Inr (map (\<lambda>kv. JString (fst kv)) kvs)"
| "py_iter (JString s) = Inr (map (\<lambda>c. JString [c]) s)"
| "py_iter _ = Inl (TypeError ''object is not iterable'')"

text \<open>\<^verbatim>\<open>k in card\<close> for a string \<open>k\<close>.\<close>

fun py_in :: "string \<Rightarrow> json \<Rightarrow> error + bool" where
  "py_in k (JObject kvs) = Inr (k \<in> set (map fst kvs))"
| "py_in k (JArray xs) = Inr (JString k \<in> set xs)"
| "py_in k (JString s) = Inr (contains s k)"
| "py_in k _ = Inl (TypeError ''argument is not iterable'')"

text \<open>\<^verbatim>\<open>card[k]\<close> for a string \<open>k\<close>.\<close>

fun getitem :: "json \<Rightarrow> string \<Rightarrow> error + json" where
  "getitem (JObject kvs) k = (case map_of kvs k of None \<Rightarrow> Inl (KeyError k) | Some v \<Rightarrow> Inr v)"
| "getitem (JArray xs) k = Inl (TypeError ''list indices must be integers or slices, not str'')"
| "getitem (JString s) k = Inl (TypeError ''string indices must be integers'')"
| "getitem _ k = Inl (TypeError ''object is not subscriptable'')"

text \<open>\<^verbatim>\<open>card[k] = v\<close> for a string \<open>k\<close>.\<close>

fun setitem :: "json \<Rightarrow> string \<Rightarrow> json \<Rightarrow> error + json" where
  "setitem (JObject kvs) k v = Inr (JObject (AList.update k v kvs))"
| "setitem (JArray xs) k v = Inl (TypeError ''list indices must be integers or slices, not str'')"
| "setitem _ k v = Inl (TypeError ''object does not support item assignment'')"

text \<open>\<^verbatim>\<open>markdown2.markdown(v)\<close> converts a string and raises on any other value.\<close>

fun markdown_value :: "(string \<Rightarrow> string) \<Rightarrow> json \<Rightarrow> error + json" where
  "markdown_value md (JString s) = Inr (JString (md s))"
| "markdown_value md _ = Inl (TypeError ''decoding to str: need a bytes-like object'')"

text \<open>\<^verbatim>\<open>card[k] = markdown2.markdown(card[k])\<close>.\<close>

definition convert_field :: "(string \<Rightarrow> string) \<Rightarrow> string \<Rightarrow> json \<Rightarrow> error + json" where
  "convert_field md k crd =
     (case getitem crd k of
        Inl e \<Rightarrow> Inl e
      | Inr v \<Rightarrow> (case markdown_value md v of
                   Inl e \<Rightarrow> Inl e
                 | Inr v' \<Rightarrow> setitem crd k v'))"

text \<open>A loop over the cards that stops at the first exception.\<close>

fun convert_all :: "(json \<Rightarrow> error + json) \<Rightarrow> json list \<Rightarrow> error + json list" where
  "convert_all f [] = Inr []"
| "convert_all f (crd # cards) =
     (case f crd of
        Inl e \<Rightarrow> Inl e
      | Inr crd' \<Rightarrow> (case convert_all f cards of
                       Inl e \<Rightarrow> Inl e
                     | Inr cards' \<Rightarrow> Inr (crd' # cards')))"

text \<open>
  The cards of a list are mutated in place, so the list holds the converted cards; the
  keys of a dict and the characters of a string are immutable, so the value is rendered
  as it was parsed.
\<close>

definition convert_cards :: "(json \<Rightarrow> error + json) \<Rightarrow> json \<Rightarrow> error + json" where
  "convert_cards f data =
     (case py_iter data of
        Inl e \<Rightarrow> Inl e
      | Inr cards \<Rightarrow> (case convert_all f cards of
                       Inl e \<Rightarrow> Inl e
                     | Inr cards' \<Rightarrow> Inr (case data of JArray _ \<Rightarrow> JArray cards' | _ \<Rightarrow> data)))"

definition flashcard :: "string \<Rightarrow> string \<Rightarrow> json" where
  "flashcard q a = JObject [(''question'', JString q), (''answer'', JString a)]"

text \<open>\<^verbatim>\<open>splitter = RecursiveCharacterTextSplitter(chunk_size=1000, chunk_overlap=100)\<close>,
  then \<^verbatim>\<open>splitter.split_text(text)\<close>, as both applications write it.\<close>

definition chunk_text :: "'a external_scheme \<Rightarrow> string \<Rightarrow> string list" where
  "chunk_text env text = split_text env 1000 100 text"

text \<open>The \<open>k\<close> records nearest to the query vector; records at the same distance are
  taken in the order of the store.\<close>

definition nearest :: "(vector \<Rightarrow> vector \<Rightarrow> real) \<Rightarrow> vector \<Rightarrow> nat \<Rightarrow> ('r \<Rightarrow> vector) \<Rightarrow> 'r list \<Rightarrow> 'r list" where
  "nearest d q k vec rs = take k (sort_key (\<lambda>r. d q (vec r)) rs)"

section \<open>The Gemini application (\<^verbatim>\<open>gemini_version/app.py\<close>)\<close>

record document =
  user_id :: string
  file_name :: string
  storage_path :: string
  created_at :: nat
  status :: string

record embedding_record =
  text_chunk :: string
  embedding :: vector

text \<open>The calls into Firestore and Firebase Storage; each of them can raise.\<close>

datatype store_op =
  Blob_upload | Doc_set | Doc_get | Blob_download | Batch_commit | Doc_update | Find_nearest

text \<open>
  The globals of the module: \<^verbatim>\<open>model\<close> and \<^verbatim>\<open>embedding_model\<close> are \<^verbatim>\<open>None\<close> when
  their initialisation failed. The embedding model is given the number of the call within
  the request, so that it may fail on one call and not on another. \<open>store_fault\<close> says
  which store calls raise during the request.
\<close>

record gemini_env = external +
  model :: "(string \<Rightarrow> error + string) option"
  embedding_model :: "(nat \<Rightarrow> string \<Rightarrow> error + vector) option"
  mock_ai :: bool
  utcnow :: nat
  store_fault :: "store_op \<Rightarrow> error option"

text \<open>
  The stores: the \<^verbatim>\<open>documents\<close> collection, the \<^verbatim>\<open>embeddings\<close> subcollections (the
  record \<^verbatim>\<open>documents/<id>/embeddings/chunk_<i>\<close> under the key \<open>(id, i)\<close>, in the order of
  creation), the storage bucket, and the prompts sent to \<^verbatim>\<open>model.generate_content\<close>.
\<close>

type_synonym batch = "((string \<times> nat) \<times> embedding_record) list"

record gemini_state =
  documents :: "string \<rightharpoonup> document"
  embeddings_coll :: batch
  bucket :: "string \<rightharpoonup> bytes"
  generate_calls :: "string list"

text \<open>The records of the subcollection \<^verbatim>\<open>documents/<id>/embeddings\<close>.\<close>

definition embeddings_of :: "gemini_state \<Rightarrow> string \<Rightarrow> batch" where
  "embeddings_of s doc_id = filter (\<lambda>r. fst (fst r) = doc_id) (embeddings_coll s)"

subsection \<open>\<^verbatim>\<open>extract_text_from_pdf\<close>\<close>

text \<open>The loop \<^verbatim>\<open>full_text += page.extract_text() + "\n"\<close>.\<close>

fun pages_text :: "page list \<Rightarrow> string \<Rightarrow> error + string" where
  "pages_text [] full_text = Inr full_text"
| "pages_text (p # ps) full_text =
     (case p of
        Inl e \<Rightarrow> Inl e
      | Inr t \<Rightarrow> pages_text ps (full_text @ t @ nl))"

text \<open>Every exception is caught and turned into \<^verbatim>\<open>None\<close>.\<close>

definition gemini_extract_text_from_pdf :: "gemini_env \<Rightarrow> gemini_state \<Rightarrow> string \<Rightarrow> string option" where
  "gemini_extract_text_from_pdf env s document_id =
     (case store_fault env Doc_get of
        Some e \<Rightarrow> None
      | None \<Rightarrow>
     (case documents s document_id of
        None \<Rightarrow> None
      | Some d \<Rightarrow>
          if storage_path d = [] then None
          else
     (case store_fault env Blob_download of
        Some e \<Rightarrow> None
      | None \<Rightarrow>
     (case bucket s (storage_path d) of
        None \<Rightarrow> None
      | Some content \<Rightarrow>
     (case PdfReader env content of
        Inl e \<Rightarrow> None
      | Inr pages \<Rightarrow>
     (case pages_text pages [] of
        Inl e \<Rightarrow> None
      | Inr full_text \<Rightarrow> Some full_text))))))"

subsection \<open>\<^verbatim>\<open>create_and_store_embeddings\<close>\<close>

text \<open>
  The loop over \<^verbatim>\<open>enumerate(chunks)\<close>: one embedding call for each chunk, and one
  \<^verbatim>\<open>batch.set\<close> that only queues the write.
\<close>

fun embed_chunks ::
  "(nat \<Rightarrow> string \<Rightarrow> error + vector) \<Rightarrow> string \<Rightarrow> nat \<Rightarrow> string list \<Rightarrow> batch \<Rightarrow> error + batch" where
  "embed_chunks em document_id i [] b = Inr b"
| "embed_chunks em document_id i (chunk # chunks) b =
     (case em i chunk of
        Inl e \<Rightarrow> Inl e
      | Inr embedding_vector \<Rightarrow>
          embed_chunks em document_id (Suc i) chunks
            (b @ [((document_id, i), \<lparr>text_chunk = chunk, embedding = embedding_vector\<rparr>)]))"

text \<open>\<^verbatim>\<open>batch.commit()\<close> writes every queued record, replacing a record with the same key.\<close>

definition batch_commit :: "batch \<Rightarrow> batch \<Rightarrow> batch" where
  "batch_commit b coll = fold (\<lambda>kr. AList.update (fst kr) (snd kr)) b coll"

definition gemini_create_and_store_embeddings ::
  "gemini_env \<Rightarrow> gemini_state \<Rightarrow> string \<Rightarrow> string \<Rightarrow> bool \<times> gemini_state" where
  "gemini_create_and_store_embeddings env s document_id text_content =
     (case embedding_model env of
        None \<Rightarrow> (False, s)
      | Some em \<Rightarrow>
     (case embed_chunks em document_id 0 (chunk_text env text_content) [] of
        Inl e \<Rightarrow> (False, s)
      | Inr b \<Rightarrow>
     (case store_fault env Batch_commit of
        Some e \<Rightarrow> (False, s)
      | None \<Rightarrow>
          (let s1 = s\<lparr>embeddings_coll := batch_commit b (embeddings_coll s)\<rparr> in
     (case store_fault env Doc_update of
        Some e \<Rightarrow> (False, s1)
      | None \<Rightarrow>
     (case documents s1 document_id of
        None \<Rightarrow> (False, s1)
      | Some d \<Rightarrow>
          (True, s1\<lparr>documents := (documents s1)(document_id \<mapsto> d\<lparr>status := ''processed''\<rparr>)\<rparr>)))))))"

subsection \<open>\<^verbatim>\<open>upload_pdf\<close>\<close>

definition error_reply :: "string \<Rightarrow> nat \<Rightarrow> reply" where
  "error_reply msg code = Inr (Jsonify [(''status'', ''error''), (''message'', msg)] code)"

text \<open>The body of the \<^verbatim>\<open>try\<close> of \<^verbatim>\<open>upload_pdf\<close>, with its \<^verbatim>\<open>except\<close>.\<close>

definition gemini_store_upload ::
  "gemini_env \<Rightarrow> gemini_state \<Rightarrow> file_storage \<Rightarrow> reply \<times> gemini_state" where
  "gemini_store_upload env s pdf_file =
     (let doc_id = uuid4 env;
          uid = ''temp_user_id_123'';
          file_path = ''uploads/'' @ uid @ ''/'' @ doc_id @ ''/'' @ filename pdf_file
      in
     (case store_fault env Blob_upload of
        Some e \<Rightarrow> (error_reply (''An error occurred: '' @ str e) 500, s)
      | None \<Rightarrow>
          (let s1 = s\<lparr>bucket := (bucket s)(file_path \<mapsto> stream pdf_file)\<rparr> in
     (case store_fault env Doc_set of
        Some e \<Rightarrow> (error_reply (''An error occurred: '' @ str e) 500, s1)
      | None \<Rightarrow>
          (let s2 = s1\<lparr>documents := (documents s1)(doc_id \<mapsto>
                 \<lparr>user_id = uid, file_name = filename pdf_file, storage_path = file_path,
                  created_at = utcnow env, status = ''uploaded''\<rparr>)\<rparr>;
               s3 = (case gemini_extract_text_from_pdf env s2 doc_id of
                       None \<Rightarrow> s2
                     | Some text_content \<Rightarrow>
                         if text_content \<noteq> []
                         then snd (gemini_create_and_store_embeddings env s2 doc_id text_content)
                         else s2)
           in (Inr (Jsonify [(''status'', ''success''),
                             (''message'', ''PDF uploaded and processing started!''),
                             (''document_id'', doc_id)] 201), s3))))))"

definition gemini_upload_pdf ::
  "gemini_env \<Rightarrow> gemini_state \<Rightarrow> upload_request \<Rightarrow> reply \<times> gemini_state" where
  "gemini_upload_pdf env s request =
     (case files request ''pdf_file'' of
        None \<Rightarrow> (error_reply ''No PDF file found in request'' 400, s)
      | Some pdf_file \<Rightarrow>
          if filename pdf_file = [] then (error_reply ''No file selected'' 400, s)
          else if filename pdf_file \<noteq> [] \<and> endswith (filename pdf_file) ''.pdf''
          then gemini_store_upload env s pdf_file
          else (error_reply ''Invalid file type. Only PDFs are allowed.'' 400, s))"

subsection \<open>\<^verbatim>\<open>generate_flashcards\<close>\<close>

definition gemini_flashcards_prompt :: "string \<Rightarrow> string" where
  \<open>gemini_flashcards_prompt text =
     nl @ ''    Based on the following text, generate a series of question and answer flashcards.''
     @ nl @ ''    Return the response as a valid JSON array of objects, where each object has a "question" key and an "answer" key.''
     @ nl @ ''    Text to analyze:''
     @ nl @ ''    '' @ text
     @ nl @ ''    ''\<close>

text \<open>\<^verbatim>\<open>if k in card: card[k] = markdown2.markdown(card[k])\<close>.\<close>

definition convert_if_present :: "(string \<Rightarrow> string) \<Rightarrow> string \<Rightarrow> json \<Rightarrow> error + json" where
  "convert_if_present md k crd =
     (case py_in k crd of
        Inl e \<Rightarrow> Inl e
      | Inr present \<Rightarrow> if present then convert_field md k crd else Inr crd)"

definition gemini_convert_card :: "(string \<Rightarrow> string) \<Rightarrow> json \<Rightarrow> error + json" where
  "gemini_convert_card md crd =
     (case convert_if_present md ''question'' crd of
        Inl e \<Rightarrow> Inl e
      | Inr crd' \<Rightarrow> convert_if_present md ''answer'' crd')"

text \<open>\<^verbatim>\<open>response.text.strip().replace("```json", "").replace("```", "")\<close>.\<close>

definition gemini_clean_response :: "string \<Rightarrow> string" where
  "gemini_clean_response text = remove_all ''```'' (remove_all ''```json'' (strip text))"

text \<open>The body of the \<^verbatim>\<open>try\<close> of \<^verbatim>\<open>generate_flashcards\<close>, from the reply of the model on.\<close>

definition gemini_parse_flashcards :: "gemini_env \<Rightarrow> error + string \<Rightarrow> error + json" where
  "gemini_parse_flashcards env response =
     (case response of
        Inl e \<Rightarrow> Inl e
      | Inr text \<Rightarrow>
     (case json_loads env (gemini_clean_response text) of
        Inl e \<Rightarrow> Inl e
      | Inr flashcards_data \<Rightarrow> convert_cards (gemini_convert_card (markdown env)) flashcards_data))"

definition flashcards_page :: "json \<Rightarrow> reply" where
  "flashcards_page cards = Inr (Render_template ''flashcards.html'' cards)"

definition gemini_generate_flashcards ::
  "gemini_env \<Rightarrow> gemini_state \<Rightarrow> string \<Rightarrow> reply \<times> gemini_state" where
  "gemini_generate_flashcards env s doc_id =
     (if mock_ai env
      then (flashcards_page (JArray
              [flashcard ''What is the capital of France?'' ''Paris'',
               flashcard ''How many planets are in our solar system?'' ''Eight'']), s)
      else
     (case model env of
        None \<Rightarrow> (flashcards_page (JArray []), s)
      | Some gen \<Rightarrow>
     (case gemini_extract_text_from_pdf env s doc_id of
        None \<Rightarrow> (flashcards_page (JArray []), s)
      | Some text \<Rightarrow>
          if text = [] then (flashcards_page (JArray []), s)
          else
            (let prompt = gemini_flashcards_prompt text;
                 s1 = s\<lparr>generate_calls := generate_calls s @ [prompt]\<rparr>
             in
     (case gemini_parse_flashcards env (gen prompt) of
        Inr flashcards_data \<Rightarrow> (flashcards_page flashcards_data, s1)
      | Inl e \<Rightarrow> (flashcards_page (JArray [flashcard ''An error occurred'' (str e)]), s1))))))"

subsection \<open>\<^verbatim>\<open>ask_question\<close>\<close>

definition gemini_question_prompt :: "string \<Rightarrow> string \<Rightarrow> string" where
  \<open>gemini_question_prompt context q =
     nl @ ''        You are a helpful assistant. Answer the following question based ONLY on the provided context.''
     @ nl @ ''        If the answer is not in the context, say "I'' @ [CHR 0x27] @ ''m sorry, I couldn'' @ [CHR 0x27] @ ''t find that information in the document."''
     @ nl
     @ nl @ ''        Context:''
     @ nl @ ''        '' @ context
     @ nl
     @ nl @ ''        Question:''
     @ nl @ ''        '' @ q
     @ nl
     @ nl @ ''        Answer:''
     @ nl @ ''        ''\<close>

definition not_found_answer :: string where
  "not_found_answer = ''I'' @ [CHR 0x27] @ ''m sorry, I couldn'' @ [CHR 0x27]
     @ ''t find any relevant information in the document to answer that.''"

definition answer_reply :: "string \<Rightarrow> string \<Rightarrow> nat \<Rightarrow> reply" where
  "answer_reply st answer code = Inr (Jsonify [(''status'', st), (''answer'', answer)] code)"

text \<open>
  \<^verbatim>\<open>find_nearest(..., distance_measure=EUCLIDEAN, limit=5)\<close> on the subcollection of the
  document, and the \<^verbatim>\<open>text_chunk\<close> of every record it streams.
\<close>

definition gemini_relevant_chunks :: "gemini_env \<Rightarrow> gemini_state \<Rightarrow> string \<Rightarrow> vector \<Rightarrow> string list" where
  "gemini_relevant_chunks env s doc_id question_embedding =
     map (\<lambda>r. text_chunk (snd r))
       (nearest (distance env) question_embedding 5 (\<lambda>r. embedding (snd r)) (embeddings_of s doc_id))"

definition gemini_ask_question ::
  "gemini_env \<Rightarrow> gemini_state \<Rightarrow> string \<Rightarrow> ask_request \<Rightarrow> reply \<times> gemini_state" where
  "gemini_ask_question env s doc_id request =
     (case (model env, embedding_model env) of
        (Some gen, Some em) \<Rightarrow>
     (case question request of
        None \<Rightarrow> (answer_reply ''error'' ''No question provided.'' 400, s)
      | Some q \<Rightarrow>
          if q = [] then (answer_reply ''error'' ''No question provided.'' 400, s)
          else
     (case em 0 q of
        Inl e \<Rightarrow> (answer_reply ''error'' (''An error occurred: '' @ str e) 500, s)
      | Inr question_embedding \<Rightarrow>
     (case store_fault env Find_nearest of
        Some e \<Rightarrow> (answer_reply ''error'' (''An error occurred: '' @ str e) 500, s)
      | None \<Rightarrow>
          (let relevant_chunks = gemini_relevant_chunks env s doc_id question_embedding in
           if relevant_chunks = [] then (answer_reply ''success'' not_found_answer 200, s)
           else
             (let context = join (nl @ nl) relevant_chunks;
                  prompt = gemini_question_prompt context q;
                  s1 = s\<lparr>generate_calls := generate_calls s @ [prompt]\<rparr>
              in
     (case gen prompt of
        Inl e \<Rightarrow> (answer_reply ''error'' (''An error occurred: '' @ str e) 500, s1)
      | Inr text \<Rightarrow> (answer_reply ''success'' (markdown env text) 200, s1)))))))
      | _ \<Rightarrow> (answer_reply ''error'' ''AI models are not initialized.'' 500, s))"

section \<open>The Groq application (\<^verbatim>\<open>groq_version/app.py\<close>)\<close>

text \<open>The statements sent to PostgreSQL; each of them can raise.\<close>

datatype sql_op = Insert_document | Insert_embedding nat | Select_embeddings

text \<open>
  \<open>embed_text\<close> is the local encoder (given the number of the call within the request),
  \<open>groq_generate\<close> the chat completion, which raises on a reply other than 200.
  \<open>save_fault\<close> says whether \<^verbatim>\<open>pdf.save(path)\<close> raises.
\<close>

record groq_env = external +
  embed_text :: "nat \<Rightarrow> string \<Rightarrow> error + vector"
  groq_generate :: "string \<Rightarrow> error + string"
  save_fault :: "error option"
  sql_fault :: "sql_op \<Rightarrow> error option"

text \<open>
  The tables \<^verbatim>\<open>documents (id, user_id, file_name)\<close> and
  \<^verbatim>\<open>embeddings (document_id, content, embedding)\<close> in insertion order (the connection
  is in autocommit mode: every insert is committed at once), the upload folder, and the
  prompts sent to the chat completion.
\<close>

record groq_state =
  documents_tbl :: "(string \<times> string \<times> string) list"
  embeddings_tbl :: "(string \<times> string \<times> vector) list"
  upload_folder :: "string \<rightharpoonup> bytes"
  groq_calls :: "string list"

text \<open>The rows \<^verbatim>\<open>WHERE document_id = doc_id\<close>.\<close>

definition rows_of :: "groq_state \<Rightarrow> string \<Rightarrow> (string \<times> string \<times> vector) list" where
  "rows_of s doc_id = filter (\<lambda>r. fst r = doc_id) (embeddings_tbl s)"

subsection \<open>\<^verbatim>\<open>extract_text_from_pdf\<close>\<close>

text \<open>The generator \<^verbatim>\<open>page.extract_text() for page in reader.pages if page.extract_text()\<close>.\<close>

fun nonempty_pages :: "page list \<Rightarrow> error + string list" where
  "nonempty_pages [] = Inr []"
| "nonempty_pages (p # ps) =
     (case p of
        Inl e \<Rightarrow> Inl e
      | Inr t \<Rightarrow> (case nonempty_pages ps of
                   Inl e \<Rightarrow> Inl e
                 | Inr ts \<Rightarrow> Inr (if t \<noteq> [] then t # ts else ts)))"

text \<open>Nothing is caught here: an unreadable or missing file raises.\<close>

definition groq_extract_text_from_pdf :: "groq_env \<Rightarrow> groq_state \<Rightarrow> string \<Rightarrow> error + string" where
  "groq_extract_text_from_pdf env s path =
     (case upload_folder s path of
        None \<Rightarrow> Inl (ExternalError ''No such file or directory'')
      | Some content \<Rightarrow>
     (case PdfReader env content of
        Inl e \<Rightarrow> Inl e
      | Inr pages \<Rightarrow>
     (case nonempty_pages pages of
        Inl e \<Rightarrow> Inl e
      | Inr ts \<Rightarrow> Inr (join nl ts))))"

subsection \<open>\<^verbatim>\<open>upload_pdf\<close>\<close>

text \<open>
  The loop over the chunks: the encoder, then one committed insert. It returns the
  exception that stopped it, if any, and the store as the loop left it.
\<close>

fun groq_store_chunks ::
  "groq_env \<Rightarrow> string \<Rightarrow> nat \<Rightarrow> string list \<Rightarrow> groq_state \<Rightarrow> error option \<times> groq_state" where
  "groq_store_chunks env doc_id i [] s = (None, s)"
| "groq_store_chunks env doc_id i (chunk # chunks) s =
     (case embed_text env i chunk of
        Inl e \<Rightarrow> (Some e, s)
      | Inr emb \<Rightarrow>
     (case sql_fault env (Insert_embedding i) of
        Some e \<Rightarrow> (Some e, s)
      | None \<Rightarrow>
          groq_store_chunks env doc_id (Suc i) chunks
            (s\<lparr>embeddings_tbl := embeddings_tbl s @ [(doc_id, chunk, emb)]\<rparr>)))"

definition groq_error :: "string \<Rightarrow> nat \<Rightarrow> reply" where
  "groq_error msg code = Inr (Jsonify [(''error'', msg)] code)"

definition groq_upload_pdf ::
  "groq_env \<Rightarrow> groq_state \<Rightarrow> upload_request \<Rightarrow> reply \<times> groq_state" where
  "groq_upload_pdf env s request =
     (case files request ''pdf_file'' of
        None \<Rightarrow> (groq_error ''No PDF uploaded'' 400, s)
      | Some pdf \<Rightarrow>
          if filename pdf = [] then (groq_error ''No PDF uploaded'' 400, s)
          else
            (let doc_id = uuid4 env;
                 fname = doc_id @ ''_'' @ filename pdf;
                 path = ''uploads/'' @ fname
             in
     (case save_fault env of
        Some e \<Rightarrow> (groq_error (str e) 500, s)
      | None \<Rightarrow>
          (let s1 = s\<lparr>upload_folder := (upload_folder s)(path \<mapsto> stream pdf)\<rparr> in
     (case sql_fault env Insert_document of
        Some e \<Rightarrow> (groq_error (str e) 500, s1)
      | None \<Rightarrow>
          (let s2 = s1\<lparr>documents_tbl := documents_tbl s1 @ [(doc_id, ''temp_user'', fname)]\<rparr> in
     (case groq_extract_text_from_pdf env s2 path of
        Inl e \<Rightarrow> (groq_error (str e) 500, s2)
      | Inr text \<Rightarrow>
     (case groq_store_chunks env doc_id 0 (chunk_text env text) s2 of
        (Some e, s3) \<Rightarrow> (groq_error (str e) 500, s3)
      | (None, s3) \<Rightarrow>
          (Inr (Jsonify [(''status'', ''success''), (''document_id'', doc_id)] 200), s3)))))))))"

subsection \<open>\<^verbatim>\<open>generate_flashcards\<close>\<close>

definition groq_flashcards_prompt :: "string \<Rightarrow> string" where
  \<open>groq_flashcards_prompt text =
     nl @ ''You are an AI that ONLY outputs valid JSON.''
     @ nl @ ''DO NOT include explanations, markdown, or extra text.''
     @ nl
     @ nl @ ''Task:''
     @ nl @ ''Generate 8 flashcards from the text below.''
     @ nl
     @ nl @ ''Output format (STRICT):''
     @ nl @ ''[''
     @ nl @ ''  {"question": "Q1", "answer": "A1"},''
     @ nl @ ''  {"question": "Q2", "answer": "A2"}''
     @ nl @ '']''
     @ nl
     @ nl @ ''Text:''
     @ nl @ text
     @ nl\<close>

definition groq_convert_card :: "(string \<Rightarrow> string) \<Rightarrow> json \<Rightarrow> error + json" where
  "groq_convert_card md crd =
     (case convert_field md ''question'' crd of
        Inl e \<Rightarrow> Inl e
      | Inr crd' \<Rightarrow> convert_field md ''answer'' crd')"

text \<open>The body of the \<^verbatim>\<open>try\<close> of \<^verbatim>\<open>generate_flashcards\<close>, from the reply of the model on.\<close>

definition groq_parse_flashcards :: "groq_env \<Rightarrow> error + string \<Rightarrow> error + json" where
  "groq_parse_flashcards env reply =
     (case reply of
        Inl e \<Rightarrow> Inl e
      | Inr text \<Rightarrow>
     (case re_search_bracket (strip text) of
        None \<Rightarrow> Inl (RuntimeError ''Model did not return valid JSON.'')
      | Some json_text \<Rightarrow>
     (case json_loads env json_text of
        Inl e \<Rightarrow> Inl e
      | Inr flashcards \<Rightarrow> convert_cards (groq_convert_card (markdown env)) flashcards)))"

definition groq_error_card :: "error \<Rightarrow> json" where
  "groq_error_card e = JArray [flashcard ''Error generating flashcards'' (str e)]"

text \<open>
  \<^verbatim>\<open>SELECT content FROM embeddings WHERE document_id=%s LIMIT 12\<close> has no
  \<^verbatim>\<open>ORDER BY\<close>; the rows are taken in insertion order.
\<close>

definition groq_contents :: "groq_state \<Rightarrow> string \<Rightarrow> nat \<Rightarrow> string list" where
  "groq_contents s doc_id limit = map (\<lambda>r. fst (snd r)) (take limit (rows_of s doc_id))"

definition groq_generate_flashcards ::
  "groq_env \<Rightarrow> groq_state \<Rightarrow> string \<Rightarrow> reply \<times> groq_state" where
  "groq_generate_flashcards env s doc_id =
     (case sql_fault env Select_embeddings of
        Some e \<Rightarrow> (flashcards_page (groq_error_card e), s)
      | None \<Rightarrow>
          (let text = join '' '' (groq_contents s doc_id 12) in
           if strip text = []
           then (flashcards_page
                   (groq_error_card (RuntimeError ''No content available to generate flashcards.'')), s)
           else
             (let prompt = groq_flashcards_prompt text;
                  s1 = s\<lparr>groq_calls := groq_calls s @ [prompt]\<rparr>
              in
     (case groq_parse_flashcards env (groq_generate env prompt) of
        Inr flashcards \<Rightarrow> (flashcards_page flashcards, s1)
      | Inl e \<Rightarrow> (flashcards_page (groq_error_card e), s1)))))"

subsection \<open>\<^verbatim>\<open>ask_question\<close>\<close>

definition groq_question_prompt :: "string \<Rightarrow> string \<Rightarrow> string" where
  "groq_question_prompt context q =
     nl @ ''    Answer ONLY using the context below.''
     @ nl @ ''    If the answer is not present, say you don'' @ [CHR 0x27]
          @ ''t know or the question asked is irrelevant to the PDF uploaded.''
     @ nl
     @ nl @ ''    Context:''
     @ nl @ ''    '' @ context
     @ nl
     @ nl @ ''    Question:''
     @ nl @ ''    '' @ q
     @ nl @ ''    ''"

text \<open>
  \<^verbatim>\<open>SELECT content ... WHERE document_id = %s ORDER BY embedding <-> %s::vector LIMIT 5\<close>.
\<close>

definition groq_context_rows :: "groq_env \<Rightarrow> groq_state \<Rightarrow> string \<Rightarrow> vector \<Rightarrow> string list" where
  "groq_context_rows env s doc_id q_emb =
     map (\<lambda>r. fst (snd r)) (nearest (distance env) q_emb 5 (\<lambda>r. snd (snd r)) (rows_of s doc_id))"

text \<open>The view has no \<^verbatim>\<open>try\<close>: an exception of the encoder, the query or the model leaves it.\<close>

definition groq_ask_question ::
  "groq_env \<Rightarrow> groq_state \<Rightarrow> string \<Rightarrow> ask_request \<Rightarrow> reply \<times> groq_state" where
  "groq_ask_question env s doc_id request =
     (case question request of
        None \<Rightarrow> (groq_error ''No question'' 400, s)
      | Some q \<Rightarrow>
          if q = [] then (groq_error ''No question'' 400, s)
          else
     (case embed_text env 0 q of
        Inl e \<Rightarrow> (Inl e, s)
      | Inr q_emb \<Rightarrow>
     (case sql_fault env Select_embeddings of
        Some e \<Rightarrow> (Inl e, s)
      | None \<Rightarrow>
          (let context = join (nl @ nl) (groq_context_rows env s doc_id q_emb);
               prompt = groq_question_prompt context q;
               s1 = s\<lparr>groq_calls := groq_calls s @ [prompt]\<rparr>
           in
     (case groq_generate env prompt of
        Inl e \<Rightarrow> (Inl e, s1)
      | Inr answer \<Rightarrow>
          (Inr (Jsonify [(''status'', ''success''), (''answer'', markdown env answer)] 200), s1))))))"

section \<open>Sample inputs\<close>

text \<open>
  Concrete libraries, stores and requests, on which the theorems below are evaluated.
  The sample libraries return what the real ones return on the inputs used here: the
  PDF readers on a one-page file, on a file whose only page has no text layer, on a file
  whose only page holds 1500 letters, and (the Groq one) on a file that is no PDF;
  \<^verbatim>\<open>markdown2\<close> on one plain line; \<^verbatim>\<open>json.loads\<close> on one array, on that array followed
  by other text, and on prose.
\<close>

definition sample_cards_text :: string where
  \<open>sample_cards_text = ''[{"question": "Q", "answer": "A"}]''\<close>

definition sample_loads :: "string \<Rightarrow> error + json" where
  "sample_loads s =
     (if s = sample_cards_text then Inr (JArray [flashcard ''Q'' ''A''])
      else if s = sample_cards_text @ '' (see [1]''
      then Inl (JSONDecodeError ''Extra data: line 1 column 36 (char 35)'')
      else Inl (JSONDecodeError ''Expecting value: line 1 column 1 (char 0)''))"

text \<open>
  \<^verbatim>\<open>PyPDF2.PdfReader\<close>, the reader of the Gemini application. Its exception on a file that
  is no PDF is never seen: \<^verbatim>\<open>extract_text_from_pdf\<close> of that application turns every
  exception into \<^verbatim>\<open>None\<close>.
\<close>

definition sample_reader :: "bytes \<Rightarrow> error + page list" where
  "sample_reader content =
     (if content = ''%PDF-1.4 hello'' then Inr [Inr ''Hello world'']
      else if content = ''%PDF-1.4 blank'' then Inr [Inr []]
      else if content = ''%PDF-1.4 long'' then Inr [Inr (replicate 1500 CHR ''a'')]
      else Inl (ExternalError ''EOF marker not found''))"

text \<open>\<^verbatim>\<open>pypdf.PdfReader\<close>, the reader of the Groq application.\<close>

definition pypdf_reader :: "bytes \<Rightarrow> error + page list" where
  "pypdf_reader content =
     (if content = ''%PDF-1.4 hello'' then Inr [Inr ''Hello world'']
      else if content = ''%PDF-1.4 blank'' then Inr [Inr []]
      else if content = ''%PDF-1.4 long'' then Inr [Inr (replicate 1500 CHR ''a'')]
      else Inl (ExternalError ''Stream has ended unexpectedly''))"

text \<open>
  The splitter on the texts used here. A text with no separator in it is cut into windows
  of \<open>chunk_size\<close> characters, each starting \<open>chunk_size - chunk_overlap\<close> characters
  after the one before; a text no longer than \<open>chunk_size\<close> is one chunk, stripped of
  the white space around it; a text of white space only gives no chunk.
\<close>

function windows :: "nat \<Rightarrow> nat \<Rightarrow> string \<Rightarrow> string list" where
  "windows chunk_size chunk_overlap text =
     (if length text \<le> chunk_size \<or> chunk_size \<le> chunk_overlap then [text]
      else take chunk_size text #
           windows chunk_size chunk_overlap (drop (chunk_size - chunk_overlap) text))"
  by pat_completeness auto
termination
  by (relation "measure (\<lambda>(chunk_size, chunk_overlap, text). length text)") auto

declare windows.simps [simp del]

definition sample_splitter :: "nat \<Rightarrow> nat \<Rightarrow> string \<Rightarrow> string list" where
  "sample_splitter chunk_size chunk_overlap text =
     (if strip text = [] then [] else windows chunk_size chunk_overlap (strip text))"

definition sample_markdown :: "string \<Rightarrow> string" where
  "sample_markdown s = ''<p>'' @ s @ ''</p>'' @ nl"

definition sample_embed :: "nat \<Rightarrow> string \<Rightarrow> error + vector" where
  "sample_embed i chunk = Inr [real (length chunk)]"

definition sample_model :: "string \<Rightarrow> error + string" where
  "sample_model prompt = Inr ''I do not know.''"

definition gemini_env0 :: gemini_env where
  "gemini_env0 = \<lparr>uuid4 = ''doc-1'', PdfReader = sample_reader, split_text = sample_splitter,
     markdown = sample_markdown, json_loads = sample_loads, distance = (\<lambda>u v. 0),
     model = Some sample_model, embedding_model = Some sample_embed, mock_ai = False,
     utcnow = 0, store_fault = (\<lambda>call. None)\<rparr>"

definition gemini_empty :: gemini_state where
  "gemini_empty = \<lparr>documents = Map.empty, embeddings_coll = [], bucket = Map.empty,
     generate_calls = []\<rparr>"

text \<open>A store holding one uploaded file whose only page has no text layer.\<close>

definition gemini_blank :: gemini_state where
  "gemini_blank = \<lparr>documents = [''doc-1'' \<mapsto>
       \<lparr>user_id = ''temp_user_id_123'', file_name = ''blank.pdf'',
        storage_path = ''uploads/temp_user_id_123/doc-1/blank.pdf'', created_at = 0,
        status = ''uploaded''\<rparr>],
     embeddings_coll = [],
     bucket = [''uploads/temp_user_id_123/doc-1/blank.pdf'' \<mapsto> ''%PDF-1.4 blank''],
     generate_calls = []\<rparr>"

definition groq_env0 :: groq_env where
  "groq_env0 = \<lparr>uuid4 = ''doc-1'', PdfReader = pypdf_reader, split_text = sample_splitter,
     markdown = sample_markdown, json_loads = sample_loads, distance = (\<lambda>u v. 0),
     embed_text = sample_embed, groq_generate = sample_model,
     save_fault = None, sql_fault = (\<lambda>call. None)\<rparr>"

definition groq_empty :: groq_state where
  "groq_empty = \<lparr>documents_tbl = [], embeddings_tbl = [], upload_folder = Map.empty,
     groq_calls = []\<rparr>"

definition upload_of :: "string \<Rightarrow> bytes \<Rightarrow> upload_request" where
  "upload_of name content = \<lparr>files = [''pdf_file'' \<mapsto> \<lparr>filename = name, stream = content\<rparr>]\<rparr>"

text \<open>Sample stores and models for the flashcard handlers.\<close>

definition groq_one :: groq_state where
  "groq_one = \<lparr>documents_tbl = [(''doc-1'', ''temp_user'', ''doc-1_a.pdf'')],
     embeddings_tbl = [(''doc-1'', ''Hello world'', [11])],
     upload_folder = [''uploads/doc-1_a.pdf'' \<mapsto> ''%PDF-1.4 hello''],
     groq_calls = []\<rparr>"

definition gemini_one :: gemini_state where
  "gemini_one = \<lparr>documents = [''doc-1'' \<mapsto>
       \<lparr>user_id = ''temp_user_id_123'', file_name = ''a.pdf'',
        storage_path = ''uploads/temp_user_id_123/doc-1/a.pdf'', created_at = 0,
        status = ''uploaded''\<rparr>],
     embeddings_coll = [],
     bucket = [''uploads/temp_user_id_123/doc-1/a.pdf'' \<mapsto> ''%PDF-1.4 hello''],
     generate_calls = []\<rparr>"

definition prose_model :: "string \<Rightarrow> error + string" where
  "prose_model prompt = Inr ''Sorry, I cannot help.''"

definition trailing_model :: "string \<Rightarrow> error + string" where
  "trailing_model prompt = Inr (sample_cards_text @ '' (see [1])'')"

definition wrapped_model :: "string \<Rightarrow> error + string" where
  "wrapped_model prompt = Inr (''Here are the cards: '' @ sample_cards_text @ '' Enjoy!'')"

text \<open>A text of two chunks, an embedding model whose second call fails, and one whose
  every call fails.\<close>

definition long_text :: string where
  "long_text = replicate 1500 CHR ''a''"

definition failing_embed :: "nat \<Rightarrow> string \<Rightarrow> error + vector" where
  "failing_embed i chunk = Inl (RuntimeError ''out of memory'')"

definition flaky_embed :: "nat \<Rightarrow> string \<Rightarrow> error + vector" where
  "flaky_embed i chunk = (if i = 1 then Inl (ExternalError ''429 Quota exceeded'') else Inr [1])"

section \<open>Predicates of the statements\<close>

text \<open>
  Every step the Groq upload runs after the file is saved and the document row is
  inserted succeeds: the reader parses the file, every page yields its text, and for
  every chunk the encoder and the insert succeed.
\<close>

definition groq_ingests :: "groq_env \<Rightarrow> bytes \<Rightarrow> bool" where
  "groq_ingests env content \<longleftrightarrow>
     (case PdfReader env content of
        Inl e \<Rightarrow> False
      | Inr pages \<Rightarrow>
     (case nonempty_pages pages of
        Inl e \<Rightarrow> False
      | Inr ts \<Rightarrow>
          (let chunks = chunk_text env (join nl ts) in
           \<forall>i < length chunks.
             (\<exists>v. embed_text env i (chunks ! i) = Inr v) \<and>
             sql_fault env (Insert_embedding i) = None)))"

text \<open>
  The embedding pipeline of the Gemini upload ran to its end on the uploaded file: no
  store call raised, the embedding model is initialised, the reader and every page
  yielded text, and for every chunk of that text the embedding call succeeded and the
  record \<open>chunk_i\<close> of the document holds the chunk and its vector.
\<close>

definition embedding_complete :: "gemini_env \<Rightarrow> gemini_state \<Rightarrow> string \<Rightarrow> bytes \<Rightarrow> bool" where
  "embedding_complete env s doc_id content \<longleftrightarrow>
     store_fault env Doc_get = None \<and> store_fault env Blob_download = None \<and>
     store_fault env Batch_commit = None \<and> store_fault env Doc_update = None \<and>
     (case embedding_model env of
        None \<Rightarrow> False
      | Some em \<Rightarrow>
     (case PdfReader env content of
        Inl e \<Rightarrow> False
      | Inr pages \<Rightarrow>
     (case pages_text pages [] of
        Inl e \<Rightarrow> False
      | Inr text \<Rightarrow>
          text \<noteq> [] \<and>
          (\<forall>i < length (chunk_text env text).
             \<exists>v. em i (chunk_text env text ! i) = Inr v \<and>
                 map_of (embeddings_coll s) (doc_id, i) =
                   Some \<lparr>text_chunk = chunk_text env text ! i, embedding = v\<rparr>))))"

section \<open>The sample splitter\<close>

lemma windows_short:
  "length text \<le> chunk_size \<Longrightarrow> windows chunk_size chunk_overlap text = [text]"
  by (subst windows.simps) simp

section \<open>Upload validation\<close>

lemma gemini_upload_rejects_non_pdf:
  assumes "files request ''pdf_file'' = Some f" and "\<not> endswith (filename f) ''.pdf''"
  shows "\<exists>msg. gemini_upload_pdf env s request = (error_reply msg 400, s)"
  using assms by (auto simp: gemini_upload_pdf_def)

text \<open>
  C1. A non-PDF filename is to be answered with 400 and no write. The Gemini application
  does so (lemma above). The Groq application never looks at the extension: on the upload
  of \<^verbatim>\<open>notes.txt\<close> it saves the file, inserts the document row, and answers 500 once the
  PDF reader fails.
\<close>

theorem groq_upload_non_pdf_is_stored:
  "groq_upload_pdf groq_env0 groq_empty (upload_of ''notes.txt'' ''plain text'') =
     (groq_error ''Stream has ended unexpectedly'' 500,
      \<lparr>documents_tbl = [(''doc-1'', ''temp_user'', ''doc-1_notes.txt'')],
       embeddings_tbl = [],
       upload_folder = [''uploads/doc-1_notes.txt'' \<mapsto> ''plain text''],
       groq_calls = []\<rparr>)"
  by (simp add: groq_upload_pdf_def groq_env0_def groq_empty_def upload_of_def Let_def
      groq_extract_text_from_pdf_def sample_reader_def pypdf_reader_def)

text \<open>The same holds for every name and every content: the Groq upload stores the file
  under the upload folder whenever the save itself succeeds, whatever the extension.\<close>

lemma groq_store_chunks_folder:
  "upload_folder (snd (groq_store_chunks env d i chunks s)) = upload_folder s"
  by (induction chunks arbitrary: i s) (simp_all split: sum.split option.split)

lemma groq_upload_stores_any_name:
  assumes "files request ''pdf_file'' = Some f" and "filename f \<noteq> []"
    and "save_fault env = None"
  shows "upload_folder (snd (groq_upload_pdf env s request))
           (''uploads/'' @ uuid4 env @ ''_'' @ filename f) = Some (stream f)"
  using assms
  by (simp add: groq_upload_pdf_def Let_def case_prod_unfold groq_store_chunks_folder
      split: option.split sum.split)

section \<open>Text extraction\<close>

lemma groq_extract_blank_pages:
  "groq_extract_text_from_pdf groq_env0
     (groq_empty\<lparr>upload_folder := [''uploads/doc-1_blank.pdf'' \<mapsto> ''%PDF-1.4 blank'']\<rparr>)
     ''uploads/doc-1_blank.pdf'' = Inr []"
  by (simp add: groq_extract_text_from_pdf_def groq_env0_def groq_empty_def sample_reader_def pypdf_reader_def)

text \<open>
  C8. When no page yields text, extraction is to return \<^verbatim>\<open>None\<close> or the empty string.
  The Groq application returns the empty string (lemma above). The Gemini application
  appends a newline for every page, so for a file whose only page is empty it returns the
  non-empty string of one newline.
\<close>

theorem gemini_extract_blank_pages:
  "gemini_extract_text_from_pdf gemini_env0 gemini_blank ''doc-1'' = Some [CHR 0x0A]"
  by (simp add: gemini_extract_text_from_pdf_def gemini_env0_def gemini_blank_def
      sample_reader_def pypdf_reader_def nl_def)

text \<open>In general: on \<open>n\<close> pages without text the Gemini loop yields \<open>n\<close> newlines, the
  Groq generator the empty string.\<close>

lemma pages_text_blank:
  "pages_text (replicate n (Inr [])) acc = Inr (acc @ concat (replicate n nl))"
  by (induction n arbitrary: acc) simp_all

lemma nonempty_pages_blank:
  "nonempty_pages (replicate n (Inr [])) = Inr []"
  by (induction n) simp_all

section \<open>Question answering\<close>

text \<open>
  C10. In both applications \<^verbatim>\<open>ask_question\<close> leaves the document records, the embedding
  records and the stored files as they were: it only reads them.
\<close>

theorem ask_question_frame:
  "documents (snd (gemini_ask_question genv gs doc_id request)) = documents gs \<and>
   embeddings_coll (snd (gemini_ask_question genv gs doc_id request)) = embeddings_coll gs \<and>
   bucket (snd (gemini_ask_question genv gs doc_id request)) = bucket gs \<and>
   documents_tbl (snd (groq_ask_question qenv qs doc_id request)) = documents_tbl qs \<and>
   embeddings_tbl (snd (groq_ask_question qenv qs doc_id request)) = embeddings_tbl qs \<and>
   upload_folder (snd (groq_ask_question qenv qs doc_id request)) = upload_folder qs"
  by (simp add: gemini_ask_question_def groq_ask_question_def Let_def
      split: option.split sum.split)

theorem ask_question_frame_witness:
  "documents (snd (gemini_ask_question gemini_env0 gemini_blank ''doc-1''
       \<lparr>question = Some ''What is this?''\<rparr>)) = documents gemini_blank \<and>
   embeddings_coll (snd (gemini_ask_question gemini_env0 gemini_blank ''doc-1''
       \<lparr>question = Some ''What is this?''\<rparr>)) = embeddings_coll gemini_blank \<and>
   bucket (snd (gemini_ask_question gemini_env0 gemini_blank ''doc-1''
       \<lparr>question = Some ''What is this?''\<rparr>)) = bucket gemini_blank \<and>
   documents_tbl (snd (groq_ask_question groq_env0 groq_empty ''doc-1''
       \<lparr>question = Some ''What is this?''\<rparr>)) = documents_tbl groq_empty \<and>
   embeddings_tbl (snd (groq_ask_question groq_env0 groq_empty ''doc-1''
       \<lparr>question = Some ''What is this?''\<rparr>)) = embeddings_tbl groq_empty \<and>
   upload_folder (snd (groq_ask_question groq_env0 groq_empty ''doc-1''
       \<lparr>question = Some ''What is this?''\<rparr>)) = upload_folder groq_empty"
  by (rule ask_question_frame)

text \<open>
  C3, as the claim states it, fails twice. In the Groq application the handler has no
  test for an empty context: with no stored row it still sends a prompt to the model. In
  the Gemini application a request without a question is answered with 400, not with the
  canned answer.
\<close>

theorem ask_question_no_embeddings_counterexample:
  "rows_of groq_empty ''doc-1'' = [] \<and>
   groq_ask_question groq_env0 groq_empty ''doc-1'' \<lparr>question = Some ''What is this?''\<rparr> =
     (Inr (Jsonify [(''status'', ''success''), (''answer'', ''<p>I do not know.</p>'' @ nl)] 200),
      groq_empty\<lparr>groq_calls := [groq_question_prompt [] ''What is this?'']\<rparr>) \<and>
   embeddings_of gemini_empty ''doc-1'' = [] \<and>
   gemini_ask_question gemini_env0 gemini_empty ''doc-1'' \<lparr>question = None\<rparr> =
     (answer_reply ''error'' ''No question provided.'' 400, gemini_empty)"
  by (simp add: rows_of_def embeddings_of_def groq_ask_question_def gemini_ask_question_def
      groq_env0_def gemini_env0_def groq_empty_def gemini_empty_def Let_def sample_embed_def
      sample_model_def sample_markdown_def groq_context_rows_def nearest_def)

text \<open>
  C3, amended. In the Gemini application, a request that carries a non-empty question,
  with both models initialised, the embedding of the question and the nearest-neighbour
  query succeeding, on a document with no embedding record, is answered with the canned
  answer, and the store is returned as it was: no prompt is sent to the model.
\<close>

theorem gemini_ask_question_no_embeddings:
  assumes "model env = Some gen" and "embedding_model env = Some em"
    and "question request = Some q" and "q \<noteq> []"
    and "em 0 q = Inr v" and "store_fault env Find_nearest = None"
    and "embeddings_of s doc_id = []"
  shows "gemini_ask_question env s doc_id request =
           (answer_reply ''success'' not_found_answer 200, s)"
  using assms
  by (simp add: gemini_ask_question_def gemini_relevant_chunks_def nearest_def)

theorem gemini_ask_question_no_embeddings_witness:
  "model gemini_env0 = Some sample_model \<and> embedding_model gemini_env0 = Some sample_embed \<and>
   question \<lparr>question = Some ''What is this?''\<rparr> = Some ''What is this?'' \<and>
   ''What is this?'' \<noteq> [] \<and> sample_embed 0 ''What is this?'' = Inr [13] \<and>
   store_fault gemini_env0 Find_nearest = None \<and> embeddings_of gemini_blank ''doc-1'' = [] \<and>
   gemini_ask_question gemini_env0 gemini_blank ''doc-1'' \<lparr>question = Some ''What is this?''\<rparr> =
     (answer_reply ''success'' not_found_answer 200, gemini_blank)"
proof -
  have h: "model gemini_env0 = Some sample_model" "embedding_model gemini_env0 = Some sample_embed"
    "question \<lparr>question = Some ''What is this?''\<rparr> = Some ''What is this?''"
    "''What is this?'' \<noteq> []" "sample_embed 0 ''What is this?'' = Inr [13]"
    "store_fault gemini_env0 Find_nearest = None" "embeddings_of gemini_blank ''doc-1'' = []"
    by (simp_all add: gemini_env0_def sample_embed_def embeddings_of_def gemini_blank_def)
  from gemini_ask_question_no_embeddings [OF h] h show ?thesis by simp
qed

section \<open>The reply of an upload\<close>

lemma groq_store_chunks_ok_iff:
  "fst (groq_store_chunks env d i0 chunks s) = None \<longleftrightarrow>
     (\<forall>i < length chunks. (\<exists>v. embed_text env (i0 + i) (chunks ! i) = Inr v) \<and>
        sql_fault env (Insert_embedding (i0 + i)) = None)"
proof (induction chunks arbitrary: i0 s)
  case Nil
  show ?case by simp
next
  case (Cons c cs)
  show ?case
  proof (cases "embed_text env i0 c")
    case (Inl e)
    then show ?thesis by auto
  next
    case (Inr emb)
    show ?thesis
    proof (cases "sql_fault env (Insert_embedding i0)")
      case (Some e)
      with Inr show ?thesis by auto
    next
      case None
      with Inr Cons.IH [of "Suc i0"] show ?thesis
        by (auto simp: less_Suc_eq_0_disj)
    qed
  qed
qed

text \<open>
  C2, as the claim states it, fails in the Groq application: an upload that is stored and
  embedded is answered with the default code 200, and an upload whose file is stored and
  whose row is written, but whose embedding fails, is answered with 500 and no identifier.
\<close>

theorem groq_upload_reply_counterexample:
  "groq_upload_pdf groq_env0 groq_empty (upload_of ''a.pdf'' ''%PDF-1.4 hello'') =
     (Inr (Jsonify [(''status'', ''success''), (''document_id'', ''doc-1'')] 200),
      \<lparr>documents_tbl = [(''doc-1'', ''temp_user'', ''doc-1_a.pdf'')],
       embeddings_tbl = [(''doc-1'', ''Hello world'', [11])],
       upload_folder = [''uploads/doc-1_a.pdf'' \<mapsto> ''%PDF-1.4 hello''],
       groq_calls = []\<rparr>) \<and>
   groq_upload_pdf (groq_env0\<lparr>embed_text := failing_embed\<rparr>)
       groq_empty (upload_of ''a.pdf'' ''%PDF-1.4 hello'') =
     (groq_error ''out of memory'' 500,
      \<lparr>documents_tbl = [(''doc-1'', ''temp_user'', ''doc-1_a.pdf'')],
       embeddings_tbl = [],
       upload_folder = [''uploads/doc-1_a.pdf'' \<mapsto> ''%PDF-1.4 hello''],
       groq_calls = []\<rparr>)"
  by (simp add: groq_upload_pdf_def groq_env0_def groq_empty_def upload_of_def Let_def
      groq_extract_text_from_pdf_def sample_reader_def pypdf_reader_def chunk_text_def sample_splitter_def windows_short
      strip_def isspace_def sample_embed_def failing_embed_def)

text \<open>
  C2, amended. In the Gemini application an upload whose file is accepted and stored and
  whose metadata record is written is answered with 201 and the generated identifier,
  whatever extraction and embedding do afterwards. In the Groq application such an upload
  is answered with 200 and the generated identifier when extraction and every embedding
  and insert succeed, and with 500 and an error message otherwise.
\<close>

theorem upload_success_reply:
  "(files request ''pdf_file'' = Some f \<and> filename f \<noteq> [] \<and> endswith (filename f) ''.pdf'' \<and>
    store_fault genv Blob_upload = None \<and> store_fault genv Doc_set = None \<longrightarrow>
      fst (gemini_upload_pdf genv gs request) =
        Inr (Jsonify [(''status'', ''success''),
                      (''message'', ''PDF uploaded and processing started!''),
                      (''document_id'', uuid4 genv)] 201)) \<and>
   (files request ''pdf_file'' = Some f \<and> filename f \<noteq> [] \<and>
    save_fault qenv = None \<and> sql_fault qenv Insert_document = None \<longrightarrow>
      (if groq_ingests qenv (stream f)
       then fst (groq_upload_pdf qenv qs request) =
              Inr (Jsonify [(''status'', ''success''), (''document_id'', uuid4 qenv)] 200)
       else \<exists>e. fst (groq_upload_pdf qenv qs request) = groq_error (str e) 500))"
proof (intro conjI impI)
  assume "files request ''pdf_file'' = Some f \<and> filename f \<noteq> [] \<and>
    endswith (filename f) ''.pdf'' \<and>
    store_fault genv Blob_upload = None \<and> store_fault genv Doc_set = None"
  then show "fst (gemini_upload_pdf genv gs request) =
        Inr (Jsonify [(''status'', ''success''),
                      (''message'', ''PDF uploaded and processing started!''),
                      (''document_id'', uuid4 genv)] 201)"
    by (simp add: gemini_upload_pdf_def gemini_store_upload_def Let_def)
next
  assume a: "files request ''pdf_file'' = Some f \<and> filename f \<noteq> [] \<and>
    save_fault qenv = None \<and> sql_fault qenv Insert_document = None"
  show "if groq_ingests qenv (stream f)
       then fst (groq_upload_pdf qenv qs request) =
              Inr (Jsonify [(''status'', ''success''), (''document_id'', uuid4 qenv)] 200)
       else \<exists>e. fst (groq_upload_pdf qenv qs request) = groq_error (str e) 500"
  proof (cases "PdfReader qenv (stream f)")
    case (Inl e)
    with a show ?thesis
      by (auto simp: groq_ingests_def groq_upload_pdf_def Let_def groq_extract_text_from_pdf_def)
  next
    case pages: (Inr pages)
    show ?thesis
    proof (cases "nonempty_pages pages")
      case (Inl e)
      with a pages show ?thesis
        by (auto simp: groq_ingests_def groq_upload_pdf_def Let_def groq_extract_text_from_pdf_def)
    next
      case (Inr ts)
      have iff: "\<And>s. (fst (groq_store_chunks qenv (uuid4 qenv) 0 (chunk_text qenv (join nl ts)) s) = None)
          = groq_ingests qenv (stream f)"
        using pages Inr groq_store_chunks_ok_iff [of qenv "uuid4 qenv" 0 "chunk_text qenv (join nl ts)"]
        by (simp add: groq_ingests_def Let_def)
      show ?thesis
      proof (cases "groq_ingests qenv (stream f)")
        case True
        with a pages Inr iff show ?thesis
          by (simp add: groq_upload_pdf_def Let_def groq_extract_text_from_pdf_def case_prod_unfold)
      next
        case False
        with iff have ne: "\<And>s. fst (groq_store_chunks qenv (uuid4 qenv) 0
            (chunk_text qenv (join nl ts)) s) \<noteq> None"
          by simp
        from a pages Inr False show ?thesis
          by (auto simp: groq_upload_pdf_def Let_def groq_extract_text_from_pdf_def case_prod_unfold ne
              split: option.split)
      qed
    qed
  qed
qed

theorem upload_success_reply_witness:
  "files (upload_of ''a.pdf'' ''%PDF-1.4 hello'') ''pdf_file'' =
     Some \<lparr>filename = ''a.pdf'', stream = ''%PDF-1.4 hello''\<rparr> \<and>
   endswith ''a.pdf'' ''.pdf'' \<and>
   store_fault gemini_env0 Blob_upload = None \<and> store_fault gemini_env0 Doc_set = None \<and>
   save_fault groq_env0 = None \<and> sql_fault groq_env0 Insert_document = None \<and>
   groq_ingests groq_env0 ''%PDF-1.4 hello'' \<and>
   fst (gemini_upload_pdf gemini_env0 gemini_empty (upload_of ''a.pdf'' ''%PDF-1.4 hello'')) =
     Inr (Jsonify [(''status'', ''success''),
                   (''message'', ''PDF uploaded and processing started!''),
                   (''document_id'', ''doc-1'')] 201) \<and>
   fst (groq_upload_pdf groq_env0 groq_empty (upload_of ''a.pdf'' ''%PDF-1.4 hello'')) =
     Inr (Jsonify [(''status'', ''success''), (''document_id'', ''doc-1'')] 200)"
proof -
  have h: "files (upload_of ''a.pdf'' ''%PDF-1.4 hello'') ''pdf_file'' =
       Some \<lparr>filename = ''a.pdf'', stream = ''%PDF-1.4 hello''\<rparr>"
    "endswith ''a.pdf'' ''.pdf''"
    "store_fault gemini_env0 Blob_upload = None" "store_fault gemini_env0 Doc_set = None"
    "save_fault groq_env0 = None" "sql_fault groq_env0 Insert_document = None"
    by (simp_all add: upload_of_def endswith_def gemini_env0_def groq_env0_def)
  have i: "groq_ingests groq_env0 ''%PDF-1.4 hello''"
    by (simp add: groq_ingests_def groq_env0_def sample_reader_def pypdf_reader_def chunk_text_def
        sample_splitter_def windows_short strip_def isspace_def sample_embed_def)
  from h i upload_success_reply [where request = "upload_of ''a.pdf'' ''%PDF-1.4 hello''"
      and f = "\<lparr>filename = ''a.pdf'', stream = ''%PDF-1.4 hello''\<rparr>"
      and genv = gemini_env0 and gs = gemini_empty and qenv = groq_env0 and qs = groq_empty]
  show ?thesis
    by (simp add: gemini_env0_def groq_env0_def)
qed

section \<open>Flashcards\<close>

text \<open>
  C4. When the reply of the model does not parse (after the clean-up of the Gemini
  application; after the extraction of the Groq application, which also fails when the
  reply has no bracketed part), the handler renders the flashcard page with exactly one
  card, the error card; and on every input both handlers return a page: no exception
  leaves them.
\<close>

theorem flashcards_parse_failure:
  "(\<not> mock_ai genv \<and> model genv = Some gen \<and>
    gemini_extract_text_from_pdf genv gs doc_id = Some extracted \<and> extracted \<noteq> [] \<and>
    gen (gemini_flashcards_prompt extracted) = Inr answer \<and>
    json_loads genv (gemini_clean_response answer) = Inl e \<longrightarrow>
      fst (gemini_generate_flashcards genv gs doc_id) =
        Inr (Render_template ''flashcards.html''
              (JArray [flashcard ''An error occurred'' (str e)]))) \<and>
   (sql_fault qenv Select_embeddings = None \<and>
    strip (join '' '' (groq_contents qs doc_id 12)) \<noteq> [] \<and>
    groq_generate qenv (groq_flashcards_prompt (join '' '' (groq_contents qs doc_id 12))) =
      Inr answer' \<and>
    (case re_search_bracket (strip answer') of
       None \<Rightarrow> e' = RuntimeError ''Model did not return valid JSON.''
     | Some json_text \<Rightarrow> json_loads qenv json_text = Inl e') \<longrightarrow>
      fst (groq_generate_flashcards qenv qs doc_id) =
        Inr (Render_template ''flashcards.html''
              (JArray [flashcard ''Error generating flashcards'' (str e')]))) \<and>
   (\<exists>page. fst (gemini_generate_flashcards genv gs doc_id) = Inr page) \<and>
   (\<exists>page. fst (groq_generate_flashcards qenv qs doc_id) = Inr page)"
proof (intro conjI impI)
  assume "\<not> mock_ai genv \<and> model genv = Some gen \<and>
    gemini_extract_text_from_pdf genv gs doc_id = Some extracted \<and> extracted \<noteq> [] \<and>
    gen (gemini_flashcards_prompt extracted) = Inr answer \<and>
    json_loads genv (gemini_clean_response answer) = Inl e"
  then show "fst (gemini_generate_flashcards genv gs doc_id) =
        Inr (Render_template ''flashcards.html''
              (JArray [flashcard ''An error occurred'' (str e)]))"
    by (simp add: gemini_generate_flashcards_def gemini_parse_flashcards_def Let_def
        flashcards_page_def)
next
  assume "sql_fault qenv Select_embeddings = None \<and>
    strip (join '' '' (groq_contents qs doc_id 12)) \<noteq> [] \<and>
    groq_generate qenv (groq_flashcards_prompt (join '' '' (groq_contents qs doc_id 12))) =
      Inr answer' \<and>
    (case re_search_bracket (strip answer') of
       None \<Rightarrow> e' = RuntimeError ''Model did not return valid JSON.''
     | Some json_text \<Rightarrow> json_loads qenv json_text = Inl e')"
  then show "fst (groq_generate_flashcards qenv qs doc_id) =
        Inr (Render_template ''flashcards.html''
              (JArray [flashcard ''Error generating flashcards'' (str e')]))"
    by (simp add: groq_generate_flashcards_def groq_parse_flashcards_def Let_def
        flashcards_page_def groq_error_card_def split: option.splits)
next
  show "\<exists>page. fst (gemini_generate_flashcards genv gs doc_id) = Inr page"
    by (simp add: gemini_generate_flashcards_def Let_def flashcards_page_def
        split: option.split sum.split)
next
  show "\<exists>page. fst (groq_generate_flashcards qenv qs doc_id) = Inr page"
    by (simp add: groq_generate_flashcards_def Let_def flashcards_page_def
        split: option.split sum.split)
qed

theorem flashcards_parse_failure_witness:
  "\<not> mock_ai (gemini_env0\<lparr>model := Some prose_model\<rparr>) \<and>
   model (gemini_env0\<lparr>model := Some prose_model\<rparr>) = Some prose_model \<and>
   gemini_extract_text_from_pdf (gemini_env0\<lparr>model := Some prose_model\<rparr>) gemini_one ''doc-1'' =
     Some (''Hello world'' @ nl) \<and>
   ''Hello world'' @ nl \<noteq> [] \<and>
   prose_model (gemini_flashcards_prompt (''Hello world'' @ nl)) = Inr ''Sorry, I cannot help.'' \<and>
   json_loads (gemini_env0\<lparr>model := Some prose_model\<rparr>)
       (gemini_clean_response ''Sorry, I cannot help.'') =
     Inl (JSONDecodeError ''Expecting value: line 1 column 1 (char 0)'') \<and>
   sql_fault (groq_env0\<lparr>groq_generate := prose_model\<rparr>) Select_embeddings = None \<and>
   strip (join '' '' (groq_contents groq_one ''doc-1'' 12)) \<noteq> [] \<and>
   groq_generate (groq_env0\<lparr>groq_generate := prose_model\<rparr>)
       (groq_flashcards_prompt (join '' '' (groq_contents groq_one ''doc-1'' 12))) =
     Inr ''Sorry, I cannot help.'' \<and>
   re_search_bracket (strip ''Sorry, I cannot help.'') = None \<and>
   fst (gemini_generate_flashcards (gemini_env0\<lparr>model := Some prose_model\<rparr>) gemini_one ''doc-1'') =
     Inr (Render_template ''flashcards.html''
           (JArray [flashcard ''An error occurred'' ''Expecting value: line 1 column 1 (char 0)''])) \<and>
   fst (groq_generate_flashcards (groq_env0\<lparr>groq_generate := prose_model\<rparr>) groq_one ''doc-1'') =
     Inr (Render_template ''flashcards.html''
           (JArray [flashcard ''Error generating flashcards'' ''Model did not return valid JSON.'']))"
proof -
  have g: "\<not> mock_ai (gemini_env0\<lparr>model := Some prose_model\<rparr>)"
    "model (gemini_env0\<lparr>model := Some prose_model\<rparr>) = Some prose_model"
    "gemini_extract_text_from_pdf (gemini_env0\<lparr>model := Some prose_model\<rparr>) gemini_one ''doc-1'' =
       Some (''Hello world'' @ nl)"
    "''Hello world'' @ nl \<noteq> []"
    "prose_model (gemini_flashcards_prompt (''Hello world'' @ nl)) = Inr ''Sorry, I cannot help.''"
    by (simp_all add: gemini_env0_def gemini_one_def gemini_extract_text_from_pdf_def
        sample_reader_def pypdf_reader_def prose_model_def)
  have c: "gemini_clean_response ''Sorry, I cannot help.'' = ''Sorry, I cannot help.''"
    by (simp add: gemini_clean_response_def strip_def isspace_def)
  have l: "json_loads (gemini_env0\<lparr>model := Some prose_model\<rparr>)
       (gemini_clean_response ''Sorry, I cannot help.'') =
     Inl (JSONDecodeError ''Expecting value: line 1 column 1 (char 0)'')"
    unfolding c by (simp add: gemini_env0_def sample_loads_def sample_cards_text_def)
  have q: "sql_fault (groq_env0\<lparr>groq_generate := prose_model\<rparr>) Select_embeddings = None"
    "strip (join '' '' (groq_contents groq_one ''doc-1'' 12)) \<noteq> []"
    "groq_generate (groq_env0\<lparr>groq_generate := prose_model\<rparr>)
       (groq_flashcards_prompt (join '' '' (groq_contents groq_one ''doc-1'' 12))) =
     Inr ''Sorry, I cannot help.''"
    "re_search_bracket (strip ''Sorry, I cannot help.'') = None"
    by (simp_all add: groq_env0_def groq_one_def groq_contents_def rows_of_def strip_def
        isspace_def prose_model_def re_search_bracket_def)
  from g l q flashcards_parse_failure [where genv = "gemini_env0\<lparr>model := Some prose_model\<rparr>"
      and gen = prose_model and gs = gemini_one and doc_id = "''doc-1''"
      and extracted = "''Hello world'' @ nl" and answer = "''Sorry, I cannot help.''"
      and e = "JSONDecodeError ''Expecting value: line 1 column 1 (char 0)''"
      and qenv = "groq_env0\<lparr>groq_generate := prose_model\<rparr>" and qs = groq_one
      and answer' = "''Sorry, I cannot help.''"
      and e' = "RuntimeError ''Model did not return valid JSON.''"]
  show ?thesis by simp
qed

subsection \<open>The bracketed part of a reply\<close>

lemma strip_around_brackets:
  "strip (pre @ CHR ''['' # body @ CHR '']'' # post) =
     dropWhile isspace pre @ CHR ''['' # body @ CHR '']'' # rev (dropWhile isspace (rev post))"
proof -
  have a: "\<not> isspace CHR ''[''" and b: "\<not> isspace CHR '']''"
    by (simp_all add: isspace_def)
  have "dropWhile isspace (pre @ CHR ''['' # body @ CHR '']'' # post) =
      dropWhile isspace pre @ CHR ''['' # body @ CHR '']'' # post"
    using a by (simp add: dropWhile_append3)
  moreover have "dropWhile isspace (rev post @ CHR '']'' # rev body @ CHR ''['' # rev (dropWhile isspace pre)) =
      dropWhile isspace (rev post) @ CHR '']'' # rev body @ CHR ''['' # rev (dropWhile isspace pre)"
    using b by (simp add: dropWhile_append3)
  ultimately show ?thesis
    by (simp add: strip_def)
qed

lemma re_search_bracket_between:
  assumes "CHR ''['' \<notin> set p" and "CHR '']'' \<notin> set q"
  shows "re_search_bracket (p @ CHR ''['' # body @ CHR '']'' # q) = Some (CHR ''['' # body @ [CHR '']''])"
proof -
  have "dropWhile (\<lambda>c. c \<noteq> CHR ''['') (p @ CHR ''['' # body @ CHR '']'' # q) =
      CHR ''['' # body @ CHR '']'' # q"
    using assms(1) by (subst dropWhile_append2) auto
  moreover have "dropWhile (\<lambda>c. c \<noteq> CHR '']'') (rev q @ CHR '']'' # rev body) = CHR '']'' # rev body"
    using assms(2) by (subst dropWhile_append2) auto
  ultimately show ?thesis
    by (simp add: re_search_bracket_def)
qed

lemma re_search_bracket_strip:
  assumes "CHR ''['' \<notin> set pre" and "CHR '']'' \<notin> set post"
  shows "re_search_bracket (strip (pre @ CHR ''['' # body @ CHR '']'' # post)) =
           Some (CHR ''['' # body @ [CHR '']''])"
proof -
  have "CHR ''['' \<notin> set (dropWhile isspace pre)"
    using assms(1) by (auto dest: set_dropWhileD)
  moreover have "CHR '']'' \<notin> set (rev (dropWhile isspace (rev post)))"
    using assms(2) by (auto dest: set_dropWhileD)
  ultimately show ?thesis
    unfolding strip_around_brackets by (rule re_search_bracket_between)
qed

lemma convert_flashcard:
  "groq_convert_card md (flashcard q a) = Inr (flashcard (md q) (md a))"
  by (simp add: groq_convert_card_def convert_field_def flashcard_def)

lemma convert_all_flashcards:
  "convert_all (groq_convert_card md) (map (\<lambda>qa. flashcard (fst qa) (snd qa)) qas) =
     Inr (map (\<lambda>qa. flashcard (md (fst qa)) (md (snd qa))) qas)"
  by (induction qas) (simp_all add: convert_flashcard)

text \<open>
  C9, as the claim states it, fails: the pattern is greedy, so the text handed to the
  parser runs from the first opening bracket to the last closing bracket of the reply,
  not to the end of the first array. A reply that is a valid array followed by prose with
  a bracket in it is rendered as the error card.
\<close>

theorem groq_flashcards_extraction_counterexample:
  "json_loads (groq_env0\<lparr>groq_generate := trailing_model\<rparr>) sample_cards_text =
     Inr (JArray [flashcard ''Q'' ''A'']) \<and>
   groq_generate (groq_env0\<lparr>groq_generate := trailing_model\<rparr>)
       (groq_flashcards_prompt (join '' '' (groq_contents groq_one ''doc-1'' 12))) =
     Inr (sample_cards_text @ '' (see [1])'') \<and>
   re_search_bracket (strip (sample_cards_text @ '' (see [1])'')) =
     Some (sample_cards_text @ '' (see [1]'') \<and>
   fst (groq_generate_flashcards (groq_env0\<lparr>groq_generate := trailing_model\<rparr>) groq_one ''doc-1'') =
     Inr (Render_template ''flashcards.html''
           (JArray [flashcard ''Error generating flashcards''
                      ''Extra data: line 1 column 36 (char 35)'']))"
  by (simp add: groq_env0_def groq_one_def groq_contents_def rows_of_def trailing_model_def
      sample_loads_def sample_cards_text_def re_search_bracket_def strip_def isspace_def
      groq_generate_flashcards_def groq_parse_flashcards_def Let_def flashcards_page_def
      groq_error_card_def)

text \<open>
  C9, amended. In the Groq application the text handed to the parser is the part of the
  reply from its first opening bracket to its last closing bracket. So a reply that is a
  JSON array of flashcards, surrounded by prose that has no opening bracket before the
  array and no closing bracket behind it, is rendered as the flashcards of that array,
  each field converted from Markdown.
\<close>

theorem groq_flashcards_extraction:
  assumes "sql_fault env Select_embeddings = None"
    and "strip (join '' '' (groq_contents s doc_id 12)) \<noteq> []"
    and "groq_generate env (groq_flashcards_prompt (join '' '' (groq_contents s doc_id 12))) =
           Inr (pre @ CHR ''['' # body @ CHR '']'' # post)"
    and "CHR ''['' \<notin> set pre" and "CHR '']'' \<notin> set post"
    and "json_loads env (CHR ''['' # body @ [CHR '']'']) =
           Inr (JArray (map (\<lambda>qa. flashcard (fst qa) (snd qa)) qas))"
  shows "fst (groq_generate_flashcards env s doc_id) =
           Inr (Render_template ''flashcards.html''
                 (JArray (map (\<lambda>qa. flashcard (markdown env (fst qa)) (markdown env (snd qa))) qas)))"
proof -
  have "groq_parse_flashcards env (Inr (pre @ CHR ''['' # body @ CHR '']'' # post)) =
      Inr (JArray (map (\<lambda>qa. flashcard (markdown env (fst qa)) (markdown env (snd qa))) qas))"
    using assms(4-6)
    by (simp add: groq_parse_flashcards_def re_search_bracket_strip convert_cards_def
        convert_all_flashcards)
  with assms(1-3) show ?thesis
    by (simp add: groq_generate_flashcards_def Let_def flashcards_page_def)
qed

theorem groq_flashcards_extraction_witness:
  \<open>sql_fault (groq_env0\<lparr>groq_generate := wrapped_model\<rparr>) Select_embeddings = None \<and>
   strip (join '' '' (groq_contents groq_one ''doc-1'' 12)) \<noteq> [] \<and>
   groq_generate (groq_env0\<lparr>groq_generate := wrapped_model\<rparr>)
       (groq_flashcards_prompt (join '' '' (groq_contents groq_one ''doc-1'' 12))) =
     Inr (''Here are the cards: '' @ CHR ''['' # ''{"question": "Q", "answer": "A"}'' @ CHR '']'' # '' Enjoy!'') \<and>
   CHR ''['' \<notin> set ''Here are the cards: '' \<and> CHR '']'' \<notin> set '' Enjoy!'' \<and>
   json_loads (groq_env0\<lparr>groq_generate := wrapped_model\<rparr>)
       (CHR ''['' # ''{"question": "Q", "answer": "A"}'' @ [CHR '']'']) =
     Inr (JArray (map (\<lambda>qa. flashcard (fst qa) (snd qa)) [(''Q'', ''A'')])) \<and>
   fst (groq_generate_flashcards (groq_env0\<lparr>groq_generate := wrapped_model\<rparr>) groq_one ''doc-1'') =
     Inr (Render_template ''flashcards.html''
           (JArray [flashcard (''<p>Q</p>'' @ nl) (''<p>A</p>'' @ nl)]))\<close>
proof -
  have h: \<open>sql_fault (groq_env0\<lparr>groq_generate := wrapped_model\<rparr>) Select_embeddings = None\<close>
    \<open>strip (join '' '' (groq_contents groq_one ''doc-1'' 12)) \<noteq> []\<close>
    \<open>groq_generate (groq_env0\<lparr>groq_generate := wrapped_model\<rparr>)
       (groq_flashcards_prompt (join '' '' (groq_contents groq_one ''doc-1'' 12))) =
     Inr (''Here are the cards: '' @ CHR ''['' # ''{"question": "Q", "answer": "A"}'' @ CHR '']'' # '' Enjoy!'')\<close>
    \<open>CHR ''['' \<notin> set ''Here are the cards: ''\<close> \<open>CHR '']'' \<notin> set '' Enjoy!''\<close>
    \<open>json_loads (groq_env0\<lparr>groq_generate := wrapped_model\<rparr>)
       (CHR ''['' # ''{"question": "Q", "answer": "A"}'' @ [CHR '']'']) =
     Inr (JArray (map (\<lambda>qa. flashcard (fst qa) (snd qa)) [(''Q'', ''A'')]))\<close>
    by (simp_all add: groq_env0_def groq_one_def groq_contents_def rows_of_def strip_def
        isspace_def wrapped_model_def sample_loads_def sample_cards_text_def)
  from groq_flashcards_extraction [OF h] h show ?thesis
    by (simp add: groq_env0_def sample_markdown_def)
qed

section \<open>Embedding failures\<close>

lemma embed_chunks_fails:
  "k < length chunks \<Longrightarrow> em (i + k) (chunks ! k) = Inl e \<Longrightarrow>
     \<exists>e'. embed_chunks em d i chunks b = Inl e'"
proof (induction chunks arbitrary: i k b)
  case Nil
  then show ?case by simp
next
  case (Cons c cs)
  show ?case
  proof (cases "em i c")
    case (Inl e0)
    then show ?thesis by simp
  next
    case (Inr v)
    show ?thesis
    proof (cases k)
      case 0
      with Cons.prems Inr show ?thesis by simp
    next
      case (Suc k')
      with Cons.prems have "k' < length cs" and "em (Suc i + k') (cs ! k') = Inl e"
        by simp_all
      from Cons.IH [OF this] Inr show ?thesis by simp
    qed
  qed
qed

lemma groq_store_chunks_partial:
  assumes "k < length chunks"
    and "\<forall>i<k. embed_text env (i0 + i) (chunks ! i) = Inr (vec i) \<and>
           sql_fault env (Insert_embedding (i0 + i)) = None"
    and "embed_text env (i0 + k) (chunks ! k) = Inl e \<or>
         (\<exists>v. embed_text env (i0 + k) (chunks ! k) = Inr v) \<and>
         sql_fault env (Insert_embedding (i0 + k)) = Some e"
  shows "groq_store_chunks env d i0 chunks s =
           (Some e, s\<lparr>embeddings_tbl := embeddings_tbl s @
                        map (\<lambda>i. (d, chunks ! i, vec i)) [0..<k]\<rparr>)"
  using assms
proof (induction chunks arbitrary: i0 k vec s)
  case Nil
  then show ?case by simp
next
  case (Cons c cs)
  show ?case
  proof (cases k)
    case 0
    with Cons.prems(3) show ?thesis by auto
  next
    case (Suc k')
    from Cons.prems(2) Suc have head: "embed_text env i0 c = Inr (vec 0)"
      "sql_fault env (Insert_embedding i0) = None"
      by auto
    have 1: "k' < length cs" using Cons.prems(1) Suc by simp
    have 2: "\<forall>i<k'. embed_text env (Suc i0 + i) (cs ! i) = Inr (vec (Suc i)) \<and>
           sql_fault env (Insert_embedding (Suc i0 + i)) = None"
      using Cons.prems(2) Suc by auto
    have 3: "embed_text env (Suc i0 + k') (cs ! k') = Inl e \<or>
         (\<exists>v. embed_text env (Suc i0 + k') (cs ! k') = Inr v) \<and>
         sql_fault env (Insert_embedding (Suc i0 + k')) = Some e"
      using Cons.prems(3) Suc by simp
    from Cons.IH [OF 1 2 3] head Suc show ?thesis
      by (simp add: map_upt_Suc del: upt_Suc)
  qed
qed

text \<open>
  C5. In the Gemini application, when the embedding call for some chunk fails,
  \<^verbatim>\<open>create_and_store_embeddings\<close> returns \<^verbatim>\<open>False\<close> and the store is as it was before:
  the batch is never committed, no embedding record is added for the document, and its
  status is not touched. In the Groq application every insert is committed on its own:
  when the loop fails at chunk \<open>k\<close> (in the encoder or in the insert), the rows of the
  chunks before \<open>k\<close>, and only those, have been added.
\<close>

theorem embedding_failure_commit:
  "(embedding_model genv = Some em \<and> k < length (chunk_text genv text) \<and>
    em k (chunk_text genv text ! k) = Inl e \<longrightarrow>
      gemini_create_and_store_embeddings genv gs doc_id text = (False, gs)) \<and>
   (k' < length chunks \<and>
    (\<forall>i<k'. embed_text qenv i (chunks ! i) = Inr (vec i) \<and>
             sql_fault qenv (Insert_embedding i) = None) \<and>
    (embed_text qenv k' (chunks ! k') = Inl e' \<or>
     (\<exists>v. embed_text qenv k' (chunks ! k') = Inr v) \<and>
     sql_fault qenv (Insert_embedding k') = Some e') \<longrightarrow>
      groq_store_chunks qenv doc_id 0 chunks qs =
        (Some e', qs\<lparr>embeddings_tbl := embeddings_tbl qs @
                      map (\<lambda>i. (doc_id, chunks ! i, vec i)) [0..<k']\<rparr>))"
proof (intro conjI impI)
  assume a: "embedding_model genv = Some em \<and> k < length (chunk_text genv text) \<and>
    em k (chunk_text genv text ! k) = Inl e"
  then obtain e0 where "embed_chunks em doc_id 0 (chunk_text genv text) [] = Inl e0"
    using embed_chunks_fails [of k "chunk_text genv text" em 0 e doc_id "[]"] by auto
  with a show "gemini_create_and_store_embeddings genv gs doc_id text = (False, gs)"
    by (simp add: gemini_create_and_store_embeddings_def)
next
  assume "k' < length chunks \<and>
    (\<forall>i<k'. embed_text qenv i (chunks ! i) = Inr (vec i) \<and>
             sql_fault qenv (Insert_embedding i) = None) \<and>
    (embed_text qenv k' (chunks ! k') = Inl e' \<or>
     (\<exists>v. embed_text qenv k' (chunks ! k') = Inr v) \<and>
     sql_fault qenv (Insert_embedding k') = Some e')"
  then show "groq_store_chunks qenv doc_id 0 chunks qs =
        (Some e', qs\<lparr>embeddings_tbl := embeddings_tbl qs @
                      map (\<lambda>i. (doc_id, chunks ! i, vec i)) [0..<k']\<rparr>)"
    using groq_store_chunks_partial [of k' chunks qenv 0 vec e' doc_id qs] by simp
qed

lemma sample_splitter_long:
  "sample_splitter 1000 100 long_text = [replicate 1000 CHR ''a'', replicate 600 CHR ''a'']"
proof -
  have s: "strip long_text = replicate 1500 CHR ''a''"
    by (simp add: strip_def long_text_def isspace_def dropWhile_replicate)
  have "windows 1000 100 (replicate 1500 CHR ''a'') =
      replicate 1000 CHR ''a'' # windows 1000 100 (replicate 600 CHR ''a'')"
    by (subst windows.simps) simp
  also have "windows 1000 100 (replicate 600 CHR ''a'') = [replicate 600 CHR ''a'']"
    by (subst windows.simps) simp
  finally show ?thesis
    by (simp add: sample_splitter_def s)
qed

theorem embedding_failure_commit_witness:
  "embedding_model (gemini_env0\<lparr>embedding_model := Some flaky_embed\<rparr>) = Some flaky_embed \<and>
   chunk_text (gemini_env0\<lparr>embedding_model := Some flaky_embed\<rparr>) long_text =
     [replicate 1000 CHR ''a'', replicate 600 CHR ''a''] \<and>
   (1::nat) < length (chunk_text (gemini_env0\<lparr>embedding_model := Some flaky_embed\<rparr>) long_text) \<and>
   flaky_embed 1 (chunk_text (gemini_env0\<lparr>embedding_model := Some flaky_embed\<rparr>) long_text ! 1) =
     Inl (ExternalError ''429 Quota exceeded'') \<and>
   chunk_text (groq_env0\<lparr>embed_text := flaky_embed\<rparr>) long_text =
     [replicate 1000 CHR ''a'', replicate 600 CHR ''a''] \<and>
   (1::nat) < length (chunk_text (groq_env0\<lparr>embed_text := flaky_embed\<rparr>) long_text) \<and>
   embed_text (groq_env0\<lparr>embed_text := flaky_embed\<rparr>) 0
       (chunk_text (groq_env0\<lparr>embed_text := flaky_embed\<rparr>) long_text ! 0) = Inr [1] \<and>
   sql_fault (groq_env0\<lparr>embed_text := flaky_embed\<rparr>) (Insert_embedding 0) = None \<and>
   embed_text (groq_env0\<lparr>embed_text := flaky_embed\<rparr>) 1
       (chunk_text (groq_env0\<lparr>embed_text := flaky_embed\<rparr>) long_text ! 1) =
     Inl (ExternalError ''429 Quota exceeded'') \<and>
   gemini_create_and_store_embeddings (gemini_env0\<lparr>embedding_model := Some flaky_embed\<rparr>)
       gemini_one ''doc-1'' long_text = (False, gemini_one) \<and>
   groq_store_chunks (groq_env0\<lparr>embed_text := flaky_embed\<rparr>) ''doc-1'' 0
       (chunk_text (groq_env0\<lparr>embed_text := flaky_embed\<rparr>) long_text) groq_empty =
     (Some (ExternalError ''429 Quota exceeded''),
      groq_empty\<lparr>embeddings_tbl := [(''doc-1'', replicate 1000 CHR ''a'', [1])]\<rparr>)"
proof -
  have cg: "chunk_text (gemini_env0\<lparr>embedding_model := Some flaky_embed\<rparr>) long_text =
     [replicate 1000 CHR ''a'', replicate 600 CHR ''a'']"
    by (simp add: chunk_text_def gemini_env0_def sample_splitter_long)
  have cq: "chunk_text (groq_env0\<lparr>embed_text := flaky_embed\<rparr>) long_text =
     [replicate 1000 CHR ''a'', replicate 600 CHR ''a'']"
    by (simp add: chunk_text_def groq_env0_def sample_splitter_long)
  have g: "embedding_model (gemini_env0\<lparr>embedding_model := Some flaky_embed\<rparr>) = Some flaky_embed"
    "(1::nat) < length (chunk_text (gemini_env0\<lparr>embedding_model := Some flaky_embed\<rparr>) long_text)"
    "flaky_embed 1 (chunk_text (gemini_env0\<lparr>embedding_model := Some flaky_embed\<rparr>) long_text ! 1) =
       Inl (ExternalError ''429 Quota exceeded'')"
    unfolding cg by (simp_all add: gemini_env0_def flaky_embed_def)
  have q: "(1::nat) < length (chunk_text (groq_env0\<lparr>embed_text := flaky_embed\<rparr>) long_text)"
    "embed_text (groq_env0\<lparr>embed_text := flaky_embed\<rparr>) 0
       (chunk_text (groq_env0\<lparr>embed_text := flaky_embed\<rparr>) long_text ! 0) = Inr [1]"
    "sql_fault (groq_env0\<lparr>embed_text := flaky_embed\<rparr>) (Insert_embedding 0) = None"
    "embed_text (groq_env0\<lparr>embed_text := flaky_embed\<rparr>) 1
       (chunk_text (groq_env0\<lparr>embed_text := flaky_embed\<rparr>) long_text ! 1) =
       Inl (ExternalError ''429 Quota exceeded'')"
    unfolding cq by (simp_all add: groq_env0_def flaky_embed_def)
  have all: "\<forall>i<1. embed_text (groq_env0\<lparr>embed_text := flaky_embed\<rparr>) i
        (chunk_text (groq_env0\<lparr>embed_text := flaky_embed\<rparr>) long_text ! i) = Inr [1] \<and>
      sql_fault (groq_env0\<lparr>embed_text := flaky_embed\<rparr>) (Insert_embedding i) = None"
    using q(2,3) by simp
  note inst = embedding_failure_commit [where genv = "gemini_env0\<lparr>embedding_model := Some flaky_embed\<rparr>"
      and em = flaky_embed and k = 1 and e = "ExternalError ''429 Quota exceeded''"
      and gs = gemini_one and doc_id = "''doc-1''" and k' = 1
      and chunks = "chunk_text (groq_env0\<lparr>embed_text := flaky_embed\<rparr>) long_text"
      and qenv = "groq_env0\<lparr>embed_text := flaky_embed\<rparr>" and vec = "\<lambda>i. [1]"
      and e' = "ExternalError ''429 Quota exceeded''" and qs = groq_empty]
  from inst g have a: "gemini_create_and_store_embeddings
      (gemini_env0\<lparr>embedding_model := Some flaky_embed\<rparr>) gemini_one ''doc-1'' long_text =
      (False, gemini_one)"
    by blast
  from inst q all have "groq_store_chunks (groq_env0\<lparr>embed_text := flaky_embed\<rparr>) ''doc-1'' 0
       (chunk_text (groq_env0\<lparr>embed_text := flaky_embed\<rparr>) long_text) groq_empty =
     (Some (ExternalError ''429 Quota exceeded''),
      groq_empty\<lparr>embeddings_tbl := embeddings_tbl groq_empty @
        map (\<lambda>i. (''doc-1'', chunk_text (groq_env0\<lparr>embed_text := flaky_embed\<rparr>) long_text ! i, [1]))
          [0..<1]\<rparr>)"
    by blast
  then have b: "groq_store_chunks (groq_env0\<lparr>embed_text := flaky_embed\<rparr>) ''doc-1'' 0
       (chunk_text (groq_env0\<lparr>embed_text := flaky_embed\<rparr>) long_text) groq_empty =
     (Some (ExternalError ''429 Quota exceeded''),
      groq_empty\<lparr>embeddings_tbl := [(''doc-1'', replicate 1000 CHR ''a'', [1])]\<rparr>)"
    by (simp add: cq groq_empty_def)
  from cg cq g q a b show ?thesis by simp
qed

text \<open>The uploads of the file of 1500 letters: two chunks are embedded and stored.\<close>

lemma groq_upload_long_sample:
  "groq_upload_pdf groq_env0 groq_empty (upload_of ''long.pdf'' ''%PDF-1.4 long'') =
     (Inr (Jsonify [(''status'', ''success''), (''document_id'', ''doc-1'')] 200),
      \<lparr>documents_tbl = [(''doc-1'', ''temp_user'', ''doc-1_long.pdf'')],
       embeddings_tbl = [(''doc-1'', replicate 1000 CHR ''a'', [1000]),
                         (''doc-1'', replicate 600 CHR ''a'', [600])],
       upload_folder = [''uploads/doc-1_long.pdf'' \<mapsto> ''%PDF-1.4 long''],
       groq_calls = []\<rparr>)"
proof -
  have c: "chunk_text groq_env0 (replicate 1500 CHR ''a'') =
      [replicate 1000 CHR ''a'', replicate 600 CHR ''a'']"
    using sample_splitter_long by (simp add: chunk_text_def groq_env0_def long_text_def)
  have x: "groq_extract_text_from_pdf groq_env0
      \<lparr>documents_tbl = [(''doc-1'', ''temp_user'', ''doc-1_long.pdf'')], embeddings_tbl = [],
       upload_folder = [''uploads/doc-1_long.pdf'' \<mapsto> ''%PDF-1.4 long''], groq_calls = []\<rparr>
      ''uploads/doc-1_long.pdf'' = Inr (replicate 1500 CHR ''a'')"
    by (simp add: groq_extract_text_from_pdf_def groq_env0_def pypdf_reader_def)
  have u: "uuid4 groq_env0 = ''doc-1''" "save_fault groq_env0 = None"
    "sql_fault groq_env0 = (\<lambda>call. None)" "embed_text groq_env0 = sample_embed"
    by (simp_all add: groq_env0_def)
  show ?thesis
    by (simp add: groq_upload_pdf_def upload_of_def groq_empty_def Let_def u x c sample_embed_def)
qed

section \<open>The status of a document\<close>

lemma embed_chunks_result:
  "embed_chunks em d i chunks b = Inr b' \<Longrightarrow>
     \<exists>vec. (\<forall>j<length chunks. em (i + j) (chunks ! j) = Inr (vec j)) \<and>
       b' = b @ map (\<lambda>j. ((d, i + j), \<lparr>text_chunk = chunks ! j, embedding = vec j\<rparr>))
                 [0..<length chunks]"
proof (induction chunks arbitrary: i b)
  case Nil
  then show ?case by simp
next
  case (Cons c cs)
  from Cons.prems obtain v where v: "em i c = Inr v"
    by (cases "em i c") simp_all
  with Cons.prems have "embed_chunks em d (Suc i) cs
      (b @ [((d, i), \<lparr>text_chunk = c, embedding = v\<rparr>)]) = Inr b'"
    by simp
  from Cons.IH [OF this] obtain vec where
    vec: "\<forall>j<length cs. em (Suc i + j) (cs ! j) = Inr (vec j)" and
    b': "b' = (b @ [((d, i), \<lparr>text_chunk = c, embedding = v\<rparr>)]) @
        map (\<lambda>j. ((d, Suc i + j), \<lparr>text_chunk = cs ! j, embedding = vec j\<rparr>)) [0..<length cs]"
    by blast
  let ?vec = "\<lambda>j. case j of 0 \<Rightarrow> v | Suc j' \<Rightarrow> vec j'"
  have "\<forall>j<length (c # cs). em (i + j) ((c # cs) ! j) = Inr (?vec j)"
    using v vec by (auto simp: less_Suc_eq_0_disj)
  moreover have "b' = b @ map (\<lambda>j. ((d, i + j), \<lparr>text_chunk = (c # cs) ! j, embedding = ?vec j\<rparr>))
      [0..<length (c # cs)]"
    using b' by (simp add: map_upt_Suc del: upt_Suc)
  ultimately show ?case by blast
qed

lemma map_of_batch_commit:
  "map_of (batch_commit b coll) = map_of coll ++ map_of (rev b)"
proof (induction b arbitrary: coll)
  case Nil
  show ?case by (simp add: batch_commit_def)
next
  case (Cons x xs)
  have "map_of (batch_commit (x # xs) coll) =
      map_of (batch_commit xs (AList.update (fst x) (snd x) coll))"
    by (simp add: batch_commit_def)
  also have "\<dots> = (map_of coll)(fst x \<mapsto> snd x) ++ map_of (rev xs)"
    by (simp only: Cons.IH update_conv')
  also have "\<dots> = map_of coll ++ map_of (rev (x # xs))"
    by (cases x) (simp add: map_add_def fun_eq_iff split: option.split)
  finally show ?case .
qed

lemma batch_commit_lookup:
  assumes "j < n"
  shows "map_of (batch_commit (map (\<lambda>j. ((d, j), r j)) [0..<n]) coll) (d, j) = Some (r j)"
proof -
  have "distinct (map fst (rev (map (\<lambda>j. ((d, j), r j)) [0..<n])))"
    by (simp add: distinct_map rev_map [symmetric] o_def inj_on_def)
  moreover have "((d, j), r j) \<in> set (rev (map (\<lambda>j. ((d, j), r j)) [0..<n]))"
    using assms by auto
  ultimately have "map_of (rev (map (\<lambda>j. ((d, j), r j)) [0..<n])) (d, j) = Some (r j)"
    by (rule map_of_is_SomeI)
  then show ?thesis
    by (simp add: map_of_batch_commit map_add_Some_iff)
qed

text \<open>
  What \<^verbatim>\<open>create_and_store_embeddings\<close> does to the documents: nothing when it returns
  \<^verbatim>\<open>False\<close>; when it returns \<^verbatim>\<open>True\<close>, the one update of the status, after every chunk
  was embedded and its record committed.
\<close>

lemma create_and_store_embeddings_status:
  "(\<not> fst (gemini_create_and_store_embeddings env s doc_id text) \<longrightarrow>
      documents (snd (gemini_create_and_store_embeddings env s doc_id text)) = documents s) \<and>
   (fst (gemini_create_and_store_embeddings env s doc_id text) \<longrightarrow>
      store_fault env Batch_commit = None \<and> store_fault env Doc_update = None \<and>
      (\<exists>d em. documents s doc_id = Some d \<and> embedding_model env = Some em \<and>
         documents (snd (gemini_create_and_store_embeddings env s doc_id text)) =
           (documents s)(doc_id \<mapsto> d\<lparr>status := ''processed''\<rparr>) \<and>
         (\<forall>i < length (chunk_text env text).
            \<exists>v. em i (chunk_text env text ! i) = Inr v \<and>
                map_of (embeddings_coll (snd (gemini_create_and_store_embeddings env s doc_id text)))
                  (doc_id, i) = Some \<lparr>text_chunk = chunk_text env text ! i, embedding = v\<rparr>)))"
proof (cases "embedding_model env")
  case None
  then show ?thesis by (simp add: gemini_create_and_store_embeddings_def)
next
  case (Some em)
  show ?thesis
  proof (cases "embed_chunks em doc_id 0 (chunk_text env text) []")
    case (Inl e)
    with Some show ?thesis by (simp add: gemini_create_and_store_embeddings_def)
  next
    case (Inr b)
    from embed_chunks_result [OF Inr] obtain vec where
      vec: "\<forall>j<length (chunk_text env text). em j (chunk_text env text ! j) = Inr (vec j)" and
      b: "b = map (\<lambda>j. ((doc_id, j), \<lparr>text_chunk = chunk_text env text ! j, embedding = vec j\<rparr>))
            [0..<length (chunk_text env text)]"
      by auto
    have look: "\<forall>i < length (chunk_text env text).
        map_of (batch_commit b (embeddings_coll s)) (doc_id, i) =
          Some \<lparr>text_chunk = chunk_text env text ! i, embedding = vec i\<rparr>"
      unfolding b by (simp add: batch_commit_lookup)
    from Some Inr vec look show ?thesis
      by (auto simp: gemini_create_and_store_embeddings_def Let_def split: option.split)
  qed
qed

text \<open>
  C6. In the Gemini application, after an accepted upload (reply 201) the document
  exists and its status is \<^verbatim>\<open>uploaded\<close>, the value written at creation, or
  \<^verbatim>\<open>processed\<close>; and it is \<^verbatim>\<open>processed\<close> only if the embedding pipeline ran to its end:
  no step failed and every embedding record of the document is committed. So on any
  failure of the pipeline the status is still \<^verbatim>\<open>uploaded\<close>. The status is written once
  at creation and at most once afterwards (lemma above).
\<close>

theorem document_status_lifecycle:
  assumes "files request ''pdf_file'' = Some f"
    and "fst (gemini_upload_pdf env s request) = Inr (Jsonify body 201)"
  shows "\<exists>d. documents (snd (gemini_upload_pdf env s request)) (uuid4 env) = Some d \<and>
           (status d = ''uploaded'' \<or> status d = ''processed'') \<and>
           (status d = ''processed'' \<longrightarrow>
              embedding_complete env (snd (gemini_upload_pdf env s request)) (uuid4 env) (stream f))"
proof -
  from assms have acc: "filename f \<noteq> []" "endswith (filename f) ''.pdf''"
    "store_fault env Blob_upload = None" "store_fault env Doc_set = None"
    by (auto simp: gemini_upload_pdf_def gemini_store_upload_def Let_def error_reply_def
        split: if_splits option.splits)
  define path where "path = ''uploads/'' @ ''temp_user_id_123'' @ ''/'' @ uuid4 env @ ''/'' @ filename f"
  define d0 where "d0 = \<lparr>user_id = ''temp_user_id_123'', file_name = filename f,
    storage_path = path, created_at = utcnow env, status = ''uploaded''\<rparr>"
  define s2 where "s2 = s\<lparr>bucket := (bucket s)(path \<mapsto> stream f),
    documents := (documents s)(uuid4 env \<mapsto> d0)\<rparr>"
  have up: "snd (gemini_upload_pdf env s request) =
      (case gemini_extract_text_from_pdf env s2 (uuid4 env) of
         None \<Rightarrow> s2
       | Some t \<Rightarrow> if t \<noteq> [] then snd (gemini_create_and_store_embeddings env s2 (uuid4 env) t)
                   else s2)"
    using assms(1) acc
    by (simp add: gemini_upload_pdf_def gemini_store_upload_def Let_def s2_def d0_def path_def
        split: option.split)
  have doc2: "documents s2 (uuid4 env) = Some d0" and st0: "status d0 = ''uploaded''"
    by (simp_all add: s2_def d0_def)
  have ext: "store_fault env Doc_get = None \<and> store_fault env Blob_download = None \<and>
      (\<exists>pages. PdfReader env (stream f) = Inr pages \<and> pages_text pages [] = Inr t)"
    if "gemini_extract_text_from_pdf env s2 (uuid4 env) = Some t" for t
    using that
    by (auto simp: gemini_extract_text_from_pdf_def s2_def d0_def path_def
        split: option.splits sum.splits if_splits)
  show ?thesis
  proof (cases "gemini_extract_text_from_pdf env s2 (uuid4 env)")
    case None
    with up doc2 st0 show ?thesis by simp
  next
    case (Some t)
    show ?thesis
    proof (cases "t = []")
      case True
      with Some up doc2 st0 show ?thesis by simp
    next
      case False
      let ?r = "gemini_create_and_store_embeddings env s2 (uuid4 env) t"
      from Some False up have final: "snd (gemini_upload_pdf env s request) = snd ?r"
        by simp
      note cs = create_and_store_embeddings_status [of env s2 "uuid4 env" t]
      show ?thesis
      proof (cases "fst ?r")
        case False
        with cs have "documents (snd ?r) = documents s2" by simp
        with doc2 st0 final show ?thesis by simp
      next
        case True
        with cs doc2 obtain em where
          faults: "store_fault env Batch_commit = None" "store_fault env Doc_update = None" and
          em: "embedding_model env = Some em" and
          docs: "documents (snd ?r) = (documents s2)(uuid4 env \<mapsto> d0\<lparr>status := ''processed''\<rparr>)" and
          recs: "\<forall>i < length (chunk_text env t).
            \<exists>v. em i (chunk_text env t ! i) = Inr v \<and>
                map_of (embeddings_coll (snd ?r)) (uuid4 env, i) =
                  Some \<lparr>text_chunk = chunk_text env t ! i, embedding = v\<rparr>"
          by auto
        from ext [OF Some] obtain pages where
          rd: "store_fault env Doc_get = None" "store_fault env Blob_download = None"
            "PdfReader env (stream f) = Inr pages" "pages_text pages [] = Inr t"
          by auto
        have "embedding_complete env (snd ?r) (uuid4 env) (stream f)"
          using faults em recs rd False by (simp add: embedding_complete_def)
        with docs final show ?thesis by simp
      qed
    qed
  qed
qed

lemma sample_upload_state:
  "gemini_upload_pdf gemini_env0 gemini_empty (upload_of ''a.pdf'' ''%PDF-1.4 hello'') =
     (Inr (Jsonify [(''status'', ''success''),
                    (''message'', ''PDF uploaded and processing started!''),
                    (''document_id'', ''doc-1'')] 201),
      \<lparr>documents = [''doc-1'' \<mapsto>
         \<lparr>user_id = ''temp_user_id_123'', file_name = ''a.pdf'',
          storage_path = ''uploads/temp_user_id_123/doc-1/a.pdf'', created_at = 0,
          status = ''processed''\<rparr>],
       embeddings_coll = [((''doc-1'', 0), \<lparr>text_chunk = ''Hello world'', embedding = [11]\<rparr>)],
       bucket = [''uploads/temp_user_id_123/doc-1/a.pdf'' \<mapsto> ''%PDF-1.4 hello''],
       generate_calls = []\<rparr>)"
  by (simp add: gemini_upload_pdf_def gemini_store_upload_def upload_of_def endswith_def
      gemini_env0_def gemini_empty_def Let_def gemini_extract_text_from_pdf_def
      sample_reader_def pypdf_reader_def nl_def gemini_create_and_store_embeddings_def chunk_text_def
      sample_splitter_def windows_short strip_def isspace_def sample_embed_def batch_commit_def)

theorem document_status_lifecycle_witness:
  "files (upload_of ''a.pdf'' ''%PDF-1.4 hello'') ''pdf_file'' =
     Some \<lparr>filename = ''a.pdf'', stream = ''%PDF-1.4 hello''\<rparr> \<and>
   fst (gemini_upload_pdf gemini_env0 gemini_empty (upload_of ''a.pdf'' ''%PDF-1.4 hello'')) =
     Inr (Jsonify [(''status'', ''success''),
                   (''message'', ''PDF uploaded and processing started!''),
                   (''document_id'', ''doc-1'')] 201) \<and>
   (\<exists>d. documents (snd (gemini_upload_pdf gemini_env0 gemini_empty
                          (upload_of ''a.pdf'' ''%PDF-1.4 hello''))) ''doc-1'' = Some d \<and>
        status d = ''processed'' \<and>
        embedding_complete gemini_env0
          (snd (gemini_upload_pdf gemini_env0 gemini_empty (upload_of ''a.pdf'' ''%PDF-1.4 hello'')))
          ''doc-1'' ''%PDF-1.4 hello'')"
proof -
  have h1: "files (upload_of ''a.pdf'' ''%PDF-1.4 hello'') ''pdf_file'' =
     Some \<lparr>filename = ''a.pdf'', stream = ''%PDF-1.4 hello''\<rparr>"
    by (simp add: upload_of_def)
  have h2: "fst (gemini_upload_pdf gemini_env0 gemini_empty (upload_of ''a.pdf'' ''%PDF-1.4 hello'')) =
     Inr (Jsonify [(''status'', ''success''),
                   (''message'', ''PDF uploaded and processing started!''),
                   (''document_id'', ''doc-1'')] 201)"
    by (simp add: sample_upload_state)
  have u: "uuid4 gemini_env0 = ''doc-1''"
    by (simp add: gemini_env0_def)
  from document_status_lifecycle [OF h1 h2] obtain d where
    d: "documents (snd (gemini_upload_pdf gemini_env0 gemini_empty
          (upload_of ''a.pdf'' ''%PDF-1.4 hello''))) ''doc-1'' = Some d" and
    imp: "status d = ''processed'' \<longrightarrow> embedding_complete gemini_env0
          (snd (gemini_upload_pdf gemini_env0 gemini_empty (upload_of ''a.pdf'' ''%PDF-1.4 hello'')))
          ''doc-1'' ''%PDF-1.4 hello''"
    unfolding u by auto
  from d have "status d = ''processed''"
    by (auto simp: sample_upload_state)
  with d imp h1 h2 show ?thesis by blast
qed

section \<open>What is stored of the chunks\<close>

text \<open>
  The splitter itself is a library outside the repository. What the two applications do
  with it is this: each calls it with 1000, 100 and the text, and stores its chunks, in
  order and unchanged.
\<close>

lemma update_new_key:
  "k \<notin> fst ` set al \<Longrightarrow> AList.update k v al = al @ [(k, v)]"
  by (induction al) auto

lemma batch_commit_new_keys:
  "distinct (map fst b) \<Longrightarrow> fst ` set b \<inter> fst ` set coll = {} \<Longrightarrow>
     batch_commit b coll = coll @ b"
proof (induction b arbitrary: coll)
  case Nil
  show ?case by (simp add: batch_commit_def)
next
  case (Cons x xs)
  from Cons.prems have new: "fst x \<notin> fst ` set coll"
    by auto
  have "batch_commit (x # xs) coll = batch_commit xs (AList.update (fst x) (snd x) coll)"
    by (simp add: batch_commit_def)
  also have "\<dots> = batch_commit xs (coll @ [x])"
    using new by (simp add: update_new_key)
  also have "\<dots> = (coll @ [x]) @ xs"
    using Cons.prems by (intro Cons.IH) auto
  finally show ?case by simp
qed

text \<open>
  The records \<^verbatim>\<open>create_and_store_embeddings\<close> leaves for a document that had none
  hold, in order, the chunks the splitter returns for the text at size 1000 and
  overlap 100.
\<close>

lemma gemini_stored_chunks:
  assumes "embeddings_of s d = []"
    and "fst (gemini_create_and_store_embeddings env s d text)"
  shows "map (\<lambda>r. text_chunk (snd r))
           (embeddings_of (snd (gemini_create_and_store_embeddings env s d text)) d) =
         split_text env 1000 100 text"
proof -
  let ?chunks = "chunk_text env text"
  from assms(2) obtain em b where
    em: "embedding_model env = Some em" and
    b: "embed_chunks em d 0 ?chunks [] = Inr b" and
    coll: "embeddings_coll (snd (gemini_create_and_store_embeddings env s d text)) =
      batch_commit b (embeddings_coll s)"
    by (auto simp: gemini_create_and_store_embeddings_def Let_def
        split: option.splits sum.splits)
  from embed_chunks_result [OF b] obtain vec where
    b_eq: "b = map (\<lambda>j. ((d, j), \<lparr>text_chunk = ?chunks ! j, embedding = vec j\<rparr>))
      [0..<length ?chunks]"
    by auto
  have dist: "distinct (map fst b)"
    unfolding b_eq by (simp add: distinct_map o_def inj_on_def)
  have "\<forall>r \<in> set (embeddings_coll s). fst (fst r) \<noteq> d"
    using assms(1) by (simp add: embeddings_of_def filter_empty_conv)
  then have disj: "fst ` set b \<inter> fst ` set (embeddings_coll s) = {}"
    unfolding b_eq by force
  have "embeddings_of (snd (gemini_create_and_store_embeddings env s d text)) d =
      embeddings_of s d @ filter (\<lambda>r. fst (fst r) = d) b"
    by (simp add: embeddings_of_def coll batch_commit_new_keys [OF dist disj])
  also have "\<dots> = b"
    using assms(1) unfolding b_eq by (simp add: filter_map o_def)
  finally have "map (\<lambda>r. text_chunk (snd r))
      (embeddings_of (snd (gemini_create_and_store_embeddings env s d text)) d) =
      map (\<lambda>j. ?chunks ! j) [0..<length ?chunks]"
    unfolding b_eq by (simp add: o_def)
  then show ?thesis
    by (simp add: map_nth chunk_text_def)
qed

lemma groq_stored_chunks:
  "fst (groq_store_chunks env d i chunks s) = None \<Longrightarrow>
     map (\<lambda>r. fst (snd r)) (rows_of (snd (groq_store_chunks env d i chunks s)) d) =
       map (\<lambda>r. fst (snd r)) (rows_of s d) @ chunks"
proof (induction chunks arbitrary: i s)
  case Nil
  show ?case by simp
next
  case (Cons c cs)
  from Cons.prems obtain emb where emb: "embed_text env i c = Inr emb"
    by (cases "embed_text env i c") simp_all
  with Cons.prems have ok: "sql_fault env (Insert_embedding i) = None"
    by (cases "sql_fault env (Insert_embedding i)") simp_all
  let ?s = "s\<lparr>embeddings_tbl := embeddings_tbl s @ [(d, c, emb)]\<rparr>"
  from Cons.prems emb ok have "fst (groq_store_chunks env d (Suc i) cs ?s) = None"
    by simp
  from Cons.IH [OF this] emb ok show ?case
    by (simp add: rows_of_def)
qed

end
